theory Spec2Isabelle
  imports
    Complex_Main
    "HOL-Library.Char_ord"
    "HOL-Library.List_Lexorder"
    "HOL-Library.Product_Lexorder"
    "HOL-Library.Option_ord"
    "HOL-Library.Multiset"
begin

text \<open>
  A model of \<^verbatim>\<open>clean_data.py\<close>: the stream normalizer \<^verbatim>\<open>parse_betfair_stream\<close>, the
  reference builder \<^verbatim>\<open>create_reference_tables\<close>, the decoder wrapper
  \<^verbatim>\<open>read_betfair_bz2\<close> and the monthly aggregation \<^verbatim>\<open>process_month\<close>. Python
  exceptions are values of a sum type, loops are recursive functions, and the pandas
  operations the code calls (\<^verbatim>\<open>drop_duplicates\<close>, \<^verbatim>\<open>sort_values\<close>, \<^verbatim>\<open>concat\<close>) are
  functions on lists of rows. Printing and the size report are left out.
\<close>

section \<open>Python values and exceptions\<close>

text \<open>
  The values found inside a decoded line are the Python objects the JSON parser builds:
  \<^verbatim>\<open>None\<close>, booleans, numbers, strings, lists and dicts. Numbers are kept as the
  rational they denote (the code only passes them on, tests them against zero and
  compares them). A dict is an association list; a lookup takes the first binding of a
  key.
\<close>

datatype json =
    JNull
  | JBool bool
  | JNum rat
  | JStr string
  | JArr "json list"
  | JObj "(string \<times> json) list"

text \<open>The exceptions the code can meet; an exception is the \<open>Inl\<close> of a result.\<close>

datatype exn =
    AttributeError
  | TypeError
  | KeyError
  | ValueError
  | DateParseError
  | OutOfBoundsDatetime
  | DecodeError

definition ebind :: "exn + 'a \<Rightarrow> ('a \<Rightarrow> exn + 'b) \<Rightarrow> exn + 'b" where
  "ebind r f = (case r of Inl e \<Rightarrow> Inl e | Inr x \<Rightarrow> f x)"

text \<open>A loop body run over a list, left to right: the first exception ends the loop.\<close>

fun emap :: "('a \<Rightarrow> exn + 'b) \<Rightarrow> 'a list \<Rightarrow> exn + 'b list" where
  "emap f [] = Inr []"
| "emap f (x # xs) = ebind (f x) (\<lambda>y. ebind (emap f xs) (\<lambda>ys. Inr (y # ys)))"

text \<open>\<^verbatim>\<open>bool(x)\<close>: the truth value of a Python object.\<close>

fun py_truthy :: "json \<Rightarrow> bool" where
  "py_truthy JNull = False"
| "py_truthy (JBool b) = b"
| "py_truthy (JNum r) = (r \<noteq> 0)"
| "py_truthy (JStr s) = (s \<noteq> [])"
| "py_truthy (JArr xs) = (xs \<noteq> [])"
| "py_truthy (JObj kvs) = (kvs \<noteq> [])"

fun is_dict :: "json \<Rightarrow> bool" where
  "is_dict (JObj kvs) = True"
| "is_dict _ = False"

text \<open>\<^verbatim>\<open>d.get(k)\<close> on a dict: the value, or \<^verbatim>\<open>None\<close> when the key is absent.\<close>

fun get :: "json \<Rightarrow> string \<Rightarrow> json" where
  "get (JObj kvs) k = (case map_of kvs k of None \<Rightarrow> JNull | Some v \<Rightarrow> v)"
| "get _ k = JNull"

text \<open>\<^verbatim>\<open>x.get(k)\<close> on any object: only a dict has the method.\<close>

definition dict_get :: "json \<Rightarrow> string \<Rightarrow> exn + json" where
  "dict_get x k = (if is_dict x then Inr (get x k) else Inl AttributeError)"

fun is_substring :: "string \<Rightarrow> string \<Rightarrow> bool" where
  "is_substring p [] = (p = [])"
| "is_substring p (c # s) = (p = take (length p) (c # s) \<or> is_substring p s)"

text \<open>
  \<^verbatim>\<open>k in x\<close> for a string \<open>k\<close>: key membership on a dict, element membership on a
  list, substring test on a string, \<^verbatim>\<open>TypeError\<close> on anything else.
\<close>

fun py_contains :: "string \<Rightarrow> json \<Rightarrow> exn + bool" where
  "py_contains k (JObj kvs) = Inr (k \<in> set (map fst kvs))"
| "py_contains k (JArr xs) = Inr (JStr k \<in> set xs)"
| "py_contains k (JStr s) = Inr (is_substring k s)"
| "py_contains k _ = Inl TypeError"

text \<open>\<^verbatim>\<open>x[k]\<close> for a string \<open>k\<close>.\<close>

fun py_item :: "json \<Rightarrow> string \<Rightarrow> exn + json" where
  "py_item (JObj kvs) k = (case map_of kvs k of None \<Rightarrow> Inl KeyError | Some v \<Rightarrow> Inr v)"
| "py_item _ k = Inl TypeError"

text \<open>
  \<^verbatim>\<open>for v in x\<close>: the elements of a list, the keys of a dict, the characters of a
  string; nothing else can be iterated.
\<close>

fun py_iter :: "json \<Rightarrow> exn + json list" where
  "py_iter (JArr xs) = Inr xs"
| "py_iter (JObj kvs) = Inr (map (\<lambda>kv. JStr (fst kv)) kvs)"
| "py_iter (JStr s) = Inr (map (\<lambda>c. JStr [c]) s)"
| "py_iter _ = Inl TypeError"

section \<open>Data frames\<close>

text \<open>
  A decoded file is a data frame with one row per line. The code reads two of its
  columns: \<open>mc\<close> (the market-change blocks; \<open>JNull\<close> stands for a missing cell) and
  \<open>pt\<close> (a nullable 64-bit integer column). \<^verbatim>\<open>hasattr(row, c)\<close> asks whether the
  frame has the column, and \<^verbatim>\<open>df.empty\<close> whether one of its axes has length zero.
\<close>

record raw_row =
  mc :: json
  pt :: "int option"

record raw_frame =
  columns :: "string list"
  rows :: "raw_row list"

definition df_empty :: "raw_frame \<Rightarrow> bool" where
  "df_empty df = (rows df = [] \<or> columns df = [])"

definition empty_frame :: raw_frame where
  "empty_frame = \<lparr>columns = [], rows = []\<rparr>"

text \<open>
  The tables the code builds are lists of record dicts, one dict per row. A cell is a
  Python value or a timestamp; \<open>Val JNull\<close> stands for every missing value
  (\<^verbatim>\<open>None\<close>, \<^verbatim>\<open>NaN\<close>, \<^verbatim>\<open>NaT\<close>).
\<close>

datatype 't cell = Val json | Time 't

type_synonym 't prow = "(string \<times> 't cell) list"
type_synonym 't frame = "'t prow list"

definition col :: "string \<Rightarrow> 't prow \<Rightarrow> 't cell" where
  "col c r = (case map_of r c of None \<Rightarrow> Val JNull | Some v \<Rightarrow> v)"

text \<open>
  The two timestamp conversions of pandas are parameters of the development:
  \<^verbatim>\<open>pd.to_datetime(v)\<close> and \<^verbatim>\<open>pd.to_datetime(n, unit="ms")\<close>. Each returns a cell
  or raises.
\<close>

record 't pandas =
  to_datetime :: "json \<Rightarrow> exn + 't cell"
  to_datetime_ms :: "int \<Rightarrow> exn + 't cell"

section \<open>The stream normalizer: \<^verbatim>\<open>parse_betfair_stream\<close>\<close>

text \<open>
  \<^verbatim>\<open>pd.isna(row.mc)\<close> under \<^verbatim>\<open>try ... except (ValueError, TypeError): pass\<close>. The test
  is true for a missing cell. A list is turned into an array first: the truth value of
  the result exists only when the array has exactly one element, and is true when that
  element is missing; in every other case the test is false or raises, and the row goes
  on.
\<close>

fun lone_null :: "json \<Rightarrow> bool" where
  "lone_null JNull = True"
| "lone_null (JArr [x]) = lone_null x"
| "lone_null _ = False"

text \<open>
  The block list of a row (\<^verbatim>\<open>mc_data\<close>): empty where the code says \<^verbatim>\<open>continue\<close>
  (no \<open>mc\<close> column, a missing cell, an empty list), the list itself for a list, and a
  one-element list for any other object.
\<close>

definition mc_data :: "raw_frame \<Rightarrow> raw_row \<Rightarrow> json list" where
  "mc_data df row =
     (if ''mc'' \<notin> set (columns df) then []
      else if lone_null (mc row) then []
      else (case mc row of JArr bs \<Rightarrow> bs | v \<Rightarrow> [v]))"

definition publish_time_of :: "'t pandas \<Rightarrow> raw_frame \<Rightarrow> raw_row \<Rightarrow> exn + 't cell" where
  "publish_time_of P df row =
     (if ''pt'' \<in> set (columns df)
      then (case pt row of None \<Rightarrow> Inr (Val JNull) | Some n \<Rightarrow> to_datetime_ms P n)
      else Inr (Val JNull))"

definition market_record :: "json \<Rightarrow> 't cell \<Rightarrow> json \<Rightarrow> exn + 't prow" where
  "market_record market_id publish_time mkt_def =
     (if \<not> is_dict mkt_def then Inl AttributeError
      else Inr
        [(''market_id'', Val market_id),
         (''publish_time'', publish_time),
         (''status'', Val (get mkt_def ''status'')),
         (''in_play'', Val (get mkt_def ''inPlay'')),
         (''number_of_active_runners'', Val (get mkt_def ''numberOfActiveRunners'')),
         (''total_matched'', Val (get mkt_def ''totalMatched'')),
         (''version'', Val (get mkt_def ''version''))])"

definition runner_static_record ::
  "'t pandas \<Rightarrow> json \<Rightarrow> 't cell \<Rightarrow> json \<Rightarrow> exn + 't prow" where
  "runner_static_record P market_id publish_time runner =
     (if \<not> is_dict runner then Inl AttributeError
      else ebind
        (if py_truthy (get runner ''removalDate'')
         then to_datetime P (get runner ''removalDate'')
         else Inr (Val JNull))
        (\<lambda>removal_date. Inr
          [(''market_id'', Val market_id),
           (''publish_time'', publish_time),
           (''runner_id'', Val (get runner ''id'')),
           (''runner_name'', Val (get runner ''name'')),
           (''status'', Val (get runner ''status'')),
           (''removal_date'', removal_date)]))"

definition runner_change_record :: "json \<Rightarrow> 't cell \<Rightarrow> json \<Rightarrow> exn + 't prow" where
  "runner_change_record market_id publish_time rc =
     (if \<not> is_dict rc then Inl AttributeError
      else Inr
        [(''market_id'', Val market_id),
         (''publish_time'', publish_time),
         (''runner_id'', Val (get rc ''id'')),
         (''ltp'', Val (get rc ''ltp'')),
         (''tv'', Val (get rc ''tv'')),
         (''batb'', Val (get rc ''batb'')),
         (''batl'', Val (get rc ''batl'')),
         (''spn'', Val (get rc ''spn'')),
         (''spf'', Val (get rc ''spf''))])"

text \<open>The body of \<^verbatim>\<open>if "marketDefinition" in market\<close>: one market row, then the runners.\<close>

definition parse_definition ::
  "'t pandas \<Rightarrow> json \<Rightarrow> 't cell \<Rightarrow> json \<Rightarrow> exn + ('t frame \<times> 't frame)" where
  "parse_definition P market_id publish_time market =
     ebind (py_item market ''marketDefinition'') (\<lambda>mkt_def.
     ebind (market_record market_id publish_time mkt_def) (\<lambda>m.
     ebind (py_contains ''runners'' mkt_def) (\<lambda>has_runners.
     ebind
       (if has_runners
        then ebind (py_item mkt_def ''runners'') (\<lambda>rs.
             ebind (py_iter rs) (emap (runner_static_record P market_id publish_time)))
        else Inr [])
       (\<lambda>rs. Inr ([m], rs)))))"

text \<open>The body of \<^verbatim>\<open>if "rc" in market\<close>.\<close>

definition parse_changes :: "json \<Rightarrow> 't cell \<Rightarrow> json \<Rightarrow> exn + 't frame" where
  "parse_changes market_id publish_time market =
     ebind (py_item market ''rc'') (\<lambda>rcs.
     ebind (py_iter rcs) (emap (runner_change_record market_id publish_time)))"

text \<open>One turn of \<^verbatim>\<open>for market in mc_data\<close>: the rows one block adds to the three lists.\<close>

definition parse_market ::
  "'t pandas \<Rightarrow> 't cell \<Rightarrow> json \<Rightarrow> exn + ('t frame \<times> 't frame \<times> 't frame)" where
  "parse_market P publish_time market =
     ebind (dict_get market ''id'') (\<lambda>market_id.
     ebind (py_contains ''marketDefinition'' market) (\<lambda>has_def.
     ebind
       (if has_def then parse_definition P market_id publish_time market else Inr ([], []))
       (\<lambda>mr.
     ebind (py_contains ''rc'' market) (\<lambda>has_rc.
     ebind
       (if has_rc then parse_changes market_id publish_time market else Inr [])
       (\<lambda>cs. Inr (fst mr, snd mr, cs))))))"

definition concat3 :: "('a list \<times> 'b list \<times> 'c list) list \<Rightarrow> 'a list \<times> 'b list \<times> 'c list" where
  "concat3 ts =
     (concat (map fst ts), concat (map (\<lambda>t. fst (snd t)) ts), concat (map (\<lambda>t. snd (snd t)) ts))"

text \<open>
  One turn of \<^verbatim>\<open>for row in df.itertuples()\<close>. The publish time is computed once, after
  the block list is known to be non-empty, and handed to every block of the row.
\<close>

definition parse_row ::
  "'t pandas \<Rightarrow> raw_frame \<Rightarrow> raw_row \<Rightarrow> exn + ('t frame \<times> 't frame \<times> 't frame)" where
  "parse_row P df row =
     (if mc_data df row = [] then Inr ([], [], [])
      else
        ebind (publish_time_of P df row) (\<lambda>publish_time.
        ebind (emap (parse_market P publish_time) (mc_data df row)) (\<lambda>ts.
        Inr (concat3 ts))))"

definition parse_betfair_stream ::
  "'t pandas \<Rightarrow> raw_frame \<Rightarrow> exn + ('t frame \<times> 't frame \<times> 't frame)" where
  "parse_betfair_stream P df =
     (if df_empty df then Inr ([], [], [])
      else ebind (emap (parse_row P df) (rows df)) (\<lambda>ts. Inr (concat3 ts)))"

section \<open>Table operations of pandas\<close>

text \<open>
  \<^verbatim>\<open>drop_duplicates\<close> and \<^verbatim>\<open>sort_values\<close> compare cells through hashing and
  ordering: numbers are compared by value, a boolean counts as the number 0 or 1, all
  missing values are one key, and a list or dict cell cannot be hashed
  (\<^verbatim>\<open>TypeError\<close>). The tables of this program carry every column they are
  deduplicated or sorted by, so the \<^verbatim>\<open>KeyError\<close> of a missing column does not arise.
\<close>

datatype 't hkey = KNull | KNum rat | KStr string | KTime 't

fun hashable :: "'t cell \<Rightarrow> bool" where
  "hashable (Val (JArr xs)) = False"
| "hashable (Val (JObj kvs)) = False"
| "hashable _ = True"

fun key_of :: "'t cell \<Rightarrow> 't hkey" where
  "key_of (Val (JBool b)) = KNum (if b then 1 else 0)"
| "key_of (Val (JNum r)) = KNum r"
| "key_of (Val (JStr s)) = KStr s"
| "key_of (Time t) = KTime t"
| "key_of (Val _) = KNull"

definition row_key :: "string list \<Rightarrow> 't prow \<Rightarrow> 't hkey list" where
  "row_key cols r = map (\<lambda>c. key_of (col c r)) cols"

definition rows_hashable :: "string list \<Rightarrow> 't frame \<Rightarrow> bool" where
  "rows_hashable cols df = list_all (\<lambda>r. list_all (\<lambda>c. hashable (col c r)) cols) df"

text \<open>
  Keep-first deduplication: a row is kept when its key has not been seen in an earlier
  row; \<open>seen\<close> is the table of keys met so far.
\<close>

fun keep_first :: "('a \<Rightarrow> 'k) \<Rightarrow> 'k list \<Rightarrow> 'a list \<Rightarrow> 'a list" where
  "keep_first f seen [] = []"
| "keep_first f seen (x # xs) =
     (if f x \<in> set seen then keep_first f seen xs else x # keep_first f (f x # seen) xs)"

text \<open>\<^verbatim>\<open>df.drop_duplicates(subset=..., keep="first")\<close> (\<open>keep\<close> defaults to first).\<close>

definition drop_duplicates :: "string list \<Rightarrow> 't frame \<Rightarrow> exn + 't frame" where
  "drop_duplicates cols df =
     (if rows_hashable cols df then Inr (keep_first (row_key cols) [] df)
      else Inl TypeError)"

text \<open>
  The order of \<^verbatim>\<open>sort_values\<close> on one column: numbers by value, strings
  lexicographically, timestamps by time; numbers come before strings, and missing values
  last (\<^verbatim>\<open>na_position="last"\<close>).
\<close>

fun sort_rank :: "'t hkey \<Rightarrow> nat \<times> rat \<times> string \<times> 't option" where
  "sort_rank (KNum r) = (0, r, [], None)"
| "sort_rank (KStr s) = (1, 0, s, None)"
| "sort_rank (KTime t) = (2, 0, [], Some t)"
| "sort_rank KNull = (3, 0, [], None)"

definition sort_by :: "string list \<Rightarrow> ('t::linorder) prow \<Rightarrow> (nat \<times> rat \<times> string \<times> 't option) list" where
  "sort_by cols r = map sort_rank (row_key cols r)"

text \<open>
  \<^verbatim>\<open>df.sort_values([c1, c2])\<close>: ascending, lexicographic over the columns. With several
  columns pandas sorts through a stable lexsort, whatever \<open>kind\<close> says; \<open>sort_key\<close> is
  the stable insertion sort of the library.
\<close>

definition sort_values :: "string list \<Rightarrow> ('t::linorder) frame \<Rightarrow> exn + 't frame" where
  "sort_values cols df =
     (if rows_hashable cols df then Inr (sort_key (sort_by cols) df) else Inl TypeError)"

section \<open>The reference builder: \<^verbatim>\<open>create_reference_tables\<close>\<close>

definition market_metadata_record :: "'t pandas \<Rightarrow> json \<Rightarrow> json \<Rightarrow> exn + 't prow" where
  "market_metadata_record P market_id mkt_def =
     (if \<not> is_dict mkt_def then Inl AttributeError
      else ebind
        (if py_truthy (get mkt_def ''marketTime'')
         then to_datetime P (get mkt_def ''marketTime'')
         else Inr (Val JNull))
        (\<lambda>market_time. Inr
          [(''market_id'', Val market_id),
           (''event_id'', Val (get mkt_def ''eventId'')),
           (''event_name'', Val (get mkt_def ''eventName'')),
           (''event_type_id'', Val (get mkt_def ''eventTypeId'')),
           (''market_name'', Val (get mkt_def ''name'')),
           (''market_type'', Val (get mkt_def ''marketType'')),
           (''market_time'', market_time),
           (''venue'', Val (get mkt_def ''venue'')),
           (''country_code'', Val (get mkt_def ''countryCode'')),
           (''number_of_winners'', Val (get mkt_def ''numberOfWinners''))]))"

definition runner_metadata_record :: "json \<Rightarrow> json \<Rightarrow> exn + 't prow" where
  "runner_metadata_record market_id runner =
     (if \<not> is_dict runner then Inl AttributeError
      else Inr
        [(''market_id'', Val market_id),
         (''runner_id'', Val (get runner ''id'')),
         (''runner_name'', Val (get runner ''name''))])"

text \<open>
  One turn of \<^verbatim>\<open>for market in mc_data\<close> in the reference builder. The membership test
  comes first here, so a block that is a string or a list is skipped unless it holds
  the text \<open>marketDefinition\<close>.
\<close>

definition reference_market :: "'t pandas \<Rightarrow> json \<Rightarrow> exn + ('t frame \<times> 't frame)" where
  "reference_market P market =
     ebind (py_contains ''marketDefinition'' market) (\<lambda>has_def.
     if \<not> has_def then Inr ([], [])
     else
       ebind (py_item market ''marketDefinition'') (\<lambda>mkt_def.
       ebind (dict_get market ''id'') (\<lambda>market_id.
       ebind (market_metadata_record P market_id mkt_def) (\<lambda>m.
       ebind (py_contains ''runners'' mkt_def) (\<lambda>has_runners.
       ebind
         (if has_runners
          then ebind (py_item mkt_def ''runners'') (\<lambda>rs.
               ebind (py_iter rs) (emap (runner_metadata_record market_id)))
          else Inr [])
         (\<lambda>rs. Inr ([m], rs)))))))"

definition concat2 :: "('a list \<times> 'b list) list \<Rightarrow> 'a list \<times> 'b list" where
  "concat2 ts = (concat (map fst ts), concat (map snd ts))"

definition reference_row :: "'t pandas \<Rightarrow> raw_frame \<Rightarrow> raw_row \<Rightarrow> exn + ('t frame \<times> 't frame)" where
  "reference_row P df row =
     ebind (emap (reference_market P) (mc_data df row)) (\<lambda>ts. Inr (concat2 ts))"

definition reference_frame :: "'t pandas \<Rightarrow> raw_frame \<Rightarrow> exn + ('t frame \<times> 't frame)" where
  "reference_frame P df =
     (if df_empty df then Inr ([], [])
      else ebind (emap (reference_row P df) (rows df)) (\<lambda>ts. Inr (concat2 ts)))"

text \<open>The two lists \<^verbatim>\<open>market_metadata\<close> and \<^verbatim>\<open>runner_metadata\<close> when the loops end.\<close>

definition collect_metadata :: "'t pandas \<Rightarrow> raw_frame list \<Rightarrow> exn + ('t frame \<times> 't frame)" where
  "collect_metadata P df_list =
     ebind (emap (reference_frame P) df_list) (\<lambda>ts. Inr (concat2 ts))"

definition create_reference_tables ::
  "'t pandas \<Rightarrow> raw_frame list \<Rightarrow> exn + ('t frame \<times> 't frame)" where
  "create_reference_tables P df_list =
     ebind (collect_metadata P df_list) (\<lambda>md.
     ebind
       (if fst md \<noteq> [] then drop_duplicates [''market_id''] (fst md) else Inr [])
       (\<lambda>market_ref.
     ebind
       (if snd md \<noteq> [] then drop_duplicates [''market_id'', ''runner_id''] (snd md) else Inr [])
       (\<lambda>runner_ref. Inr (market_ref, runner_ref))))"

section \<open>The aggregator: \<^verbatim>\<open>process_month\<close>\<close>

text \<open>
  The decoder proper (\<^verbatim>\<open>pd.read_json\<close> on a compressed file) is a parameter
  \<open>read_json\<close>: it returns a frame or raises. \<^verbatim>\<open>read_betfair_bz2\<close> wraps it in
  \<^verbatim>\<open>try ... except Exception\<close> and answers a failure with an empty frame.
\<close>

definition read_betfair_bz2 :: "('f \<Rightarrow> exn + raw_frame) \<Rightarrow> 'f \<Rightarrow> exn + raw_frame" where
  "read_betfair_bz2 read_json file_path =
     (case read_json file_path of Inl e \<Rightarrow> Inr empty_frame | Inr df \<Rightarrow> Inr df)"

text \<open>
  The accumulators of a month. A table built from record dicts is empty exactly when it
  has no row (every row dict carries all its columns).
\<close>

record 't month_state =
  all_markets :: "'t frame list"
  all_runner_static :: "'t frame list"
  all_raw_dfs :: "raw_frame list"

definition init_state :: "'t month_state" where
  "init_state = \<lparr>all_markets = [], all_runner_static = [], all_raw_dfs = []\<rparr>"

text \<open>
  The body of \<^verbatim>\<open>for file_path in batch\<close>, a \<^verbatim>\<open>try\<close> block whose handler only logs:
  an exception leaves the accumulators as they were when it was raised. The raw frame is
  appended before the parse.
\<close>

definition process_file ::
  "'t pandas \<Rightarrow> ('f \<Rightarrow> exn + raw_frame) \<Rightarrow> 't month_state \<times> 't frame list \<Rightarrow> 'f
   \<Rightarrow> 't month_state \<times> 't frame list" where
  "process_file P read_json acc file_path =
     (case read_betfair_bz2 read_json file_path of
        Inl e \<Rightarrow> acc
      | Inr df \<Rightarrow>
          if df_empty df then acc
          else
            (let st = (fst acc)\<lparr>all_raw_dfs := all_raw_dfs (fst acc) @ [df]\<rparr> in
             case parse_betfair_stream P df of
               Inl e \<Rightarrow> (st, snd acc)
             | Inr (m, rs, rc) \<Rightarrow>
                 (st\<lparr>all_markets := (if m \<noteq> [] then all_markets st @ [m] else all_markets st),
                     all_runner_static :=
                       (if rs \<noteq> [] then all_runner_static st @ [rs] else all_runner_static st)\<rparr>,
                  if rc \<noteq> [] then snd acc @ [rc] else snd acc)))"

definition batch_size :: nat where
  "batch_size = 100"

text \<open>\<^verbatim>\<open>bz2_files[i : i + batch_size]\<close> for \<open>i\<close> in \<^verbatim>\<open>range(0, len(bz2_files), batch_size)\<close>.\<close>

function batches :: "'a list \<Rightarrow> 'a list list" where
  "batches xs = (if xs = [] then [] else take batch_size xs # batches (drop batch_size xs))"
  by pat_completeness auto
termination
  by (relation "measure length") (auto simp: batch_size_def)

declare batches.simps [simp del]

definition process_files ::
  "'t pandas \<Rightarrow> ('f \<Rightarrow> exn + raw_frame) \<Rightarrow> 't month_state \<times> 't frame list \<Rightarrow> 'f list
   \<Rightarrow> 't month_state \<times> 't frame list" where
  "process_files P read_json acc bz2_files =
     foldl (\<lambda>a batch. foldl (process_file P read_json) a batch) acc (batches bz2_files)"

text \<open>
  The end of a day: when some file gave price changes, they are concatenated, sorted
  and written as the day's file.
\<close>

definition flush_day :: "('t::linorder) frame list \<Rightarrow> exn + 't frame option" where
  "flush_day day_runner_changes =
     (if day_runner_changes = [] then Inr None
      else ebind (sort_values [''market_id'', ''publish_time''] (concat day_runner_changes))
             (\<lambda>daily_prices. Inr (Some daily_prices)))"

text \<open>
  \<^verbatim>\<open>for day_path in days\<close>: the daily files written (day name and table), and the
  accumulators at the end or the exception that ended the loop. Files written before an
  exception stay written.
\<close>

fun process_days ::
  "('t::linorder) pandas \<Rightarrow> ('f \<Rightarrow> exn + raw_frame) \<Rightarrow> 't month_state \<Rightarrow> (string \<times> 'f list) list
   \<Rightarrow> (string \<times> 't frame) list \<times> (exn + 't month_state)" where
  "process_days P read_json st [] = ([], Inr st)"
| "process_days P read_json st (d # ds) =
     (let acc = process_files P read_json (st, []) (snd d) in
      case flush_day (snd acc) of
        Inl e \<Rightarrow> ([], Inl e)
      | Inr None \<Rightarrow> process_days P read_json (fst acc) ds
      | Inr (Some daily_prices) \<Rightarrow>
          (let r = process_days P read_json (fst acc) ds
           in ((fst d, daily_prices) # fst r, snd r)))"

text \<open>The monthly deduplication step of one table.\<close>

definition dedup_sorted :: "string list \<Rightarrow> ('t::linorder) frame \<Rightarrow> exn + 't frame" where
  "dedup_sorted cols combined =
     (if combined \<noteq> []
      then ebind (drop_duplicates cols combined) (sort_values [''market_id'', ''publish_time''])
      else Inr combined)"

text \<open>
  What the month leaves behind: the monthly tables (an empty table is not written) and
  the summary dict.
\<close>

record 't month_tables =
  market_reference :: "'t frame"
  runner_reference :: "'t frame"
  market_timeline :: "'t frame"
  runner_status :: "'t frame"

text \<open>
  The input and output directories, as the code finds them: whether the month's input
  directory exists, its day directories in the order of \<^verbatim>\<open>sorted(..., key=int)\<close>, each
  with the files \<^verbatim>\<open>rglob("*.bz2")\<close> lists, and what the output folder
  \<open>daily_prices\<close> already holds (the days whose file is there, and the number of other
  parquet files). Listing the directories and writing the parquet files are taken to
  succeed.
\<close>

record 'f month_dir =
  month_exists :: bool
  days :: "(string \<times> 'f list) list"
  prior_days :: "string list"
  prior_other :: nat

definition finish_month ::
  "('t::linorder) pandas \<Rightarrow> 'f month_dir \<Rightarrow> int \<Rightarrow> string \<Rightarrow> (string \<times> 't frame) list
   \<Rightarrow> 't month_state \<Rightarrow> exn + ('t month_tables \<times> (string \<times> json) list) option" where
  "finish_month P dir year month written st =
     ebind (create_reference_tables P (all_raw_dfs st)) (\<lambda>refs.
     ebind (dedup_sorted [''market_id'', ''status'', ''in_play'', ''version'']
              (concat (all_markets st))) (\<lambda>combined_markets.
     ebind (dedup_sorted [''market_id'', ''runner_id'', ''status'']
              (concat (all_runner_static st))) (\<lambda>combined_runner_static.
     Inr (Some
       (\<lparr>market_reference = fst refs,
         runner_reference = snd refs,
         market_timeline = combined_markets,
         runner_status = combined_runner_static\<rparr>,
        [(''year'', JNum (of_int year)),
         (''month'', JStr month),
         (''num_markets'', JNum (of_nat (length (fst refs)))),
         (''num_runners'', JNum (of_nat (length (snd refs)))),
         (''num_daily_files'',
            JNum (of_nat (length (remdups (prior_days dir @ map fst written)) + prior_other dir)))])))))"

record 't month_result =
  written_daily :: "(string \<times> 't frame) list"
  outcome :: "exn + ('t month_tables \<times> (string \<times> json) list) option"

text \<open>
  \<^verbatim>\<open>process_month\<close>: \<open>Inr None\<close> is the bare \<^verbatim>\<open>return\<close> of a month whose directory is
  absent, \<open>Inr (Some (tables, summary))\<close> the normal end, \<open>Inl e\<close> an exception that
  leaves the function.
\<close>

definition process_month ::
  "('t::linorder) pandas \<Rightarrow> ('f \<Rightarrow> exn + raw_frame) \<Rightarrow> 'f month_dir \<Rightarrow> int \<Rightarrow> string
   \<Rightarrow> 't month_result" where
  "process_month P read_json dir year month =
     (if \<not> month_exists dir then \<lparr>written_daily = [], outcome = Inr None\<rparr>
      else
        (let r = process_days P read_json init_state (days dir) in
         \<lparr>written_daily = fst r,
          outcome = ebind (snd r) (finish_month P dir year month (fst r))\<rparr>))"

text \<open>
  An instance of the conversions for the examples: a timestamp is an integer count of
  milliseconds, \<^verbatim>\<open>unit="ms"\<close> keeps the number, and the general conversion reads a
  number and raises on anything else.
\<close>

definition ms_pandas :: "int pandas" where
  "ms_pandas =
     \<lparr>to_datetime = (\<lambda>v. case v of JNum r \<Rightarrow> Inr (Time \<lfloor>r\<rfloor>) | _ \<Rightarrow> Inl DateParseError),
      to_datetime_ms = (\<lambda>n. Inr (Time n))\<rparr>"

section \<open>What a file leaves in the accumulators\<close>

text \<open>
  Two notions used to state the results below, each proved equal to what
  \<open>process_file\<close> does: the price-change frames one file adds to the day's buffer, and
  the raw frames a list of files adds to \<open>all_raw_dfs\<close>.
\<close>

definition file_changes :: "'t pandas \<Rightarrow> ('f \<Rightarrow> exn + raw_frame) \<Rightarrow> 'f \<Rightarrow> 't frame list" where
  "file_changes P read_json file_path =
     (case read_json file_path of
        Inl e \<Rightarrow> []
      | Inr df \<Rightarrow>
          if df_empty df then []
          else (case parse_betfair_stream P df of
                  Inl e \<Rightarrow> []
                | Inr t \<Rightarrow> if snd (snd t) = [] then [] else [snd (snd t)]))"

definition retained_frames :: "('f \<Rightarrow> exn + raw_frame) \<Rightarrow> 'f list \<Rightarrow> raw_frame list" where
  "retained_frames read_json files =
     concat (map (\<lambda>f. case read_json f of
                          Inl e \<Rightarrow> []
                        | Inr df \<Rightarrow> if df_empty df then [] else [df]) files)"

text \<open>A row with its \<open>market_id\<close> cell replaced, to compare the rows of two blocks.\<close>

definition with_market_id :: "json \<Rightarrow> 't prow \<Rightarrow> 't prow" where
  "with_market_id v r = map (\<lambda>kv. if fst kv = ''market_id'' then (''market_id'', Val v) else kv) r"

definition null_ids :: "'t frame \<times> 't frame \<times> 't frame \<Rightarrow> 't frame \<times> 't frame \<times> 't frame" where
  "null_ids out =
     (map (with_market_id JNull) (fst out), map (with_market_id JNull) (fst (snd out)),
      map (with_market_id JNull) (snd (snd out)))"

text \<open>
  The market and runner frames one file adds to the month's accumulators, next to
  \<open>file_changes\<close>.
\<close>

definition file_markets :: "'t pandas \<Rightarrow> ('f \<Rightarrow> exn + raw_frame) \<Rightarrow> 'f \<Rightarrow> 't frame list" where
  "file_markets P read_json file_path =
     (case read_json file_path of
        Inl e \<Rightarrow> []
      | Inr df \<Rightarrow>
          if df_empty df then []
          else (case parse_betfair_stream P df of
                  Inl e \<Rightarrow> []
                | Inr t \<Rightarrow> if fst t = [] then [] else [fst t]))"

definition file_runner_static :: "'t pandas \<Rightarrow> ('f \<Rightarrow> exn + raw_frame) \<Rightarrow> 'f \<Rightarrow> 't frame list" where
  "file_runner_static P read_json file_path =
     (case read_json file_path of
        Inl e \<Rightarrow> []
      | Inr df \<Rightarrow>
          if df_empty df then []
          else (case parse_betfair_stream P df of
                  Inl e \<Rightarrow> []
                | Inr t \<Rightarrow> if fst (snd t) = [] then [] else [fst (snd t)]))"

section \<open>The blocks of the input in traversal order\<close>

text \<open>
  The order in which the raw record set is walked: the frames in list order, the rows of
  a frame in row order, and the blocks of a row in the order of its block list. A
  block is definition-bearing when \<^verbatim>\<open>"marketDefinition" in market\<close> holds; its runner
  entries are what \<^verbatim>\<open>for runner in mkt_def["runners"]\<close> walks, and none when the
  definition has no \<open>runners\<close>.
\<close>

definition blocks_of :: "raw_frame list \<Rightarrow> json list" where
  "blocks_of df_list = concat (map (\<lambda>df. concat (map (mc_data df) (rows df))) df_list)"

definition definition_bearing :: "json \<Rightarrow> bool" where
  "definition_bearing market = (py_contains ''marketDefinition'' market = Inr True)"

definition definition_blocks :: "raw_frame list \<Rightarrow> json list" where
  "definition_blocks df_list = filter definition_bearing (blocks_of df_list)"

definition runner_entries_of :: "json \<Rightarrow> json list" where
  "runner_entries_of market =
     (if py_contains ''runners'' (get market ''marketDefinition'') = Inr True
      then (case py_iter (get (get market ''marketDefinition'') ''runners'') of
              Inl e \<Rightarrow> []
            | Inr rs \<Rightarrow> rs)
      else [])"

text \<open>The runner entries of the input, each with its block, in traversal order.\<close>

definition runner_entries :: "raw_frame list \<Rightarrow> (json \<times> json) list" where
  "runner_entries df_list =
     concat (map (\<lambda>market. map (Pair market) (runner_entries_of market)) (definition_blocks df_list))"


section \<open>Example inputs\<close>

text \<open>Two files that define the same market and runner with different values.\<close>

definition first_file :: raw_frame where
  "first_file =
     \<lparr>columns = [''pt'', ''mc''],
      rows =
        [\<lparr>mc = JArr [JObj [(''id'', JStr ''1.23''),
                (''marketDefinition'', JObj [(''name'', JStr ''First''),
                   (''runners'', JArr [JObj [(''id'', JNum 10), (''name'', JStr ''A'')]])])]],
          pt = Some 1700000000000\<rparr>]\<rparr>"

definition second_file :: raw_frame where
  "second_file =
     \<lparr>columns = [''pt'', ''mc''],
      rows =
        [\<lparr>mc = JArr [JObj [(''id'', JStr ''1.23''),
                (''marketDefinition'', JObj [(''name'', JStr ''Second''), (''venue'', JStr ''Ascot''),
                   (''runners'', JArr [JObj [(''id'', JNum 10), (''name'', JStr ''B'')],
                                       JObj [(''id'', JNum 11), (''name'', JStr ''C'')]])])]],
          pt = Some 1700000001000\<rparr>]\<rparr>"

text \<open>
  A file of price changes whose records are out of order, and a file whose block has a
  definition and a change list that is not a list: the parse of the second raises.
\<close>

definition changes_file :: raw_frame where
  "changes_file =
     \<lparr>columns = [''pt'', ''mc''],
      rows =
        [\<lparr>mc = JArr [JObj [(''id'', JStr ''1.23''),
                  (''rc'', JArr [JObj [(''id'', JNum 10), (''ltp'', JNum 2.5)],
                                 JObj [(''id'', JNum 11), (''ltp'', JNum 4)]])]],
          pt = Some 1700000002000\<rparr>,
         \<lparr>mc = JObj [(''id'', JStr ''1.100''), (''rc'', JArr [JObj [(''id'', JNum 7)]])],
          pt = Some 1700000003000\<rparr>,
         \<lparr>mc = JArr [JObj [(''rc'', JArr [JObj [(''id'', JNum 8)]])]], pt = None\<rparr>,
         \<lparr>mc = JArr [JObj [(''id'', JStr ''1.23''), (''rc'', JArr [JObj [(''id'', JNum 10), (''tv'', JNum 50)]])]],
          pt = Some 1700000001000\<rparr>]\<rparr>"

definition broken_file :: raw_frame where
  "broken_file =
     \<lparr>columns = [''mc''],
      rows =
        [\<lparr>mc = JArr [JObj [(''id'', JStr ''1.99''),
                  (''marketDefinition'', JObj [(''name'', JStr ''Broken'')]),
                  (''rc'', JNum 5)]],
          pt = None\<rparr>]\<rparr>"

text \<open>A month of two days; one file of the first day cannot be decoded.\<close>

definition example_read_json :: "string \<Rightarrow> exn + raw_frame" where
  "example_read_json file_path =
     (if file_path = ''a.bz2'' then Inr first_file
      else if file_path = ''b.bz2'' then Inr second_file
      else if file_path = ''c.bz2'' then Inr changes_file
      else if file_path = ''broken.bz2'' then Inr broken_file
      else Inl DecodeError)"

definition example_dir :: "string month_dir" where
  "example_dir =
     \<lparr>month_exists = True,
      days = [(''1'', [''a.bz2'', ''unreadable.bz2'', ''c.bz2'']), (''2'', [''b.bz2'', ''broken.bz2''])],
      prior_days = [],
      prior_other = 0\<rparr>"

definition example_month :: "int month_result" where
  "example_month = process_month ms_pandas example_read_json example_dir 2024 ''Dec''"

definition example_state :: "int month_state" where
  "example_state = projr (snd (process_days ms_pandas example_read_json init_state (days example_dir)))"

definition example_tables :: "int month_tables" where
  "example_tables = fst (the (projr (outcome example_month)))"

definition example_summary :: "(string \<times> json) list" where
  "example_summary = snd (the (projr (outcome example_month)))"

definition example_daily :: "int frame" where
  "example_daily = snd (hd (written_daily example_month))"

text \<open>The two records of the example scenario: a definition, then a price change.\<close>

definition scenario_file :: raw_frame where
  "scenario_file =
     \<lparr>columns = [''pt'', ''mc''],
      rows =
        [\<lparr>mc = JArr [JObj [(''id'', JStr ''1.23''),
               (''marketDefinition'',
                  JObj [(''status'', JStr ''OPEN''), (''inPlay'', JBool False),
                        (''numberOfActiveRunners'', JNum 2), (''totalMatched'', JNum 100.5),
                        (''version'', JNum 1),
                        (''runners'',
                           JArr [JObj [(''id'', JStr ''10''), (''name'', JStr ''A''),
                                       (''status'', JStr ''ACTIVE'')]])])]],
          pt = Some 1700000000000\<rparr>,
         \<lparr>mc = JArr [JObj [(''id'', JStr ''1.23''),
               (''rc'', JArr [JObj [(''id'', JStr ''10''), (''ltp'', JNum 2.5), (''tv'', JNum 50)]])]],
          pt = Some 1700000001000\<rparr>]\<rparr>"

definition scenario_rows :: "int frame \<times> int frame \<times> int frame" where
  "scenario_rows = projr (parse_betfair_stream ms_pandas scenario_file)"

text \<open>A block with a definition and a change list but no id.\<close>

definition anonymous_block :: "(string \<times> json) list" where
  "anonymous_block =
     [(''marketDefinition'',
         JObj [(''status'', JStr ''OPEN''),
               (''runners'', JArr [JObj [(''id'', JNum 10), (''name'', JStr ''A'')]])]),
      (''rc'', JArr [JObj [(''id'', JNum 10), (''ltp'', JNum 2)], JObj [(''id'', JNum 11)]])]"

text \<open>
  The example month without the file whose parse raises, and a month whose only file
  holds a definition followed by a block that is a number.
\<close>

definition example_dir_without_broken :: "string month_dir" where
  "example_dir_without_broken =
     example_dir\<lparr>days := [(''1'', [''a.bz2'', ''unreadable.bz2'', ''c.bz2'']), (''2'', [''b.bz2''])]\<rparr>"

definition crash_file :: raw_frame where
  "crash_file =
     \<lparr>columns = [''mc''],
      rows =
        [\<lparr>mc = JArr [JObj [(''id'', JStr ''1.5''),
                           (''marketDefinition'', JObj [(''name'', JStr ''Crash'')])],
                     JNum 5],
          pt = None\<rparr>]\<rparr>"

definition crash_read_json :: "string \<Rightarrow> exn + raw_frame" where
  "crash_read_json file_path = (if file_path = ''crash.bz2'' then Inr crash_file else Inl DecodeError)"

definition crash_dir :: "string month_dir" where
  "crash_dir =
     \<lparr>month_exists = True, days = [(''1'', [''crash.bz2''])], prior_days = [], prior_other = 0\<rparr>"

text \<open>
  A file whose first record defines market 2.5 in two blocks, and whose second record
  defines market 7.77; and the reference tables of three files.
\<close>

definition two_block_file :: raw_frame where
  "two_block_file =
     \<lparr>columns = [''mc''],
      rows =
        [\<lparr>mc = JArr [JObj [(''id'', JStr ''2.5''),
                           (''marketDefinition'', JObj [(''name'', JStr ''One'')])],
                     JObj [(''id'', JStr ''2.5''),
                           (''marketDefinition'',
                              JObj [(''name'', JStr ''Two''), (''venue'', JStr ''York'')])]],
          pt = None\<rparr>,
         \<lparr>mc = JObj [(''id'', JStr ''7.77''),
                     (''marketDefinition'',
                        JObj [(''name'', JStr ''Seven''),
                              (''runners'', JArr [JObj [(''id'', JNum 3), (''name'', JStr ''D'')]])])],
          pt = None\<rparr>]\<rparr>"

definition example_refs :: "int frame \<times> int frame" where
  "example_refs = projr (create_reference_tables ms_pandas [first_file, second_file, two_block_file])"


section \<open>Basic facts\<close>

subsection \<open>Results and loops\<close>

lemma ebind_Inr [simp]: "ebind (Inr x) f = f x"
  by (simp add: ebind_def)

lemma ebind_Inl [simp]: "ebind (Inl e) f = Inl e"
  by (simp add: ebind_def)

lemma ebind_eq_Inr_iff: "ebind r f = Inr y \<longleftrightarrow> (\<exists>x. r = Inr x \<and> f x = Inr y)"
  by (cases r) simp_all

lemma emap_eq_Inr_iff: "emap f xs = Inr ys \<longleftrightarrow> map f xs = map Inr ys"
proof (induction xs arbitrary: ys)
  case Nil
  show ?case by auto
next
  case (Cons x xs)
  show ?case
  proof (cases ys)
    case Nil
    then show ?thesis by (auto simp: ebind_eq_Inr_iff)
  next
    case (Cons y ys')
    then show ?thesis using Cons.IH [of ys'] by (auto simp: ebind_eq_Inr_iff)
  qed
qed

lemma emap_Inr_length: "emap f xs = Inr ys \<Longrightarrow> length ys = length xs"
  by (metis emap_eq_Inr_iff length_map)

lemma emap_Inr_list_all2: "emap f xs = Inr ys \<longleftrightarrow> list_all2 (\<lambda>x y. f x = Inr y) xs ys"
proof (induction xs arbitrary: ys)
  case Nil
  show ?case by auto
next
  case (Cons x xs)
  show ?case
    by (cases ys) (auto simp: ebind_eq_Inr_iff Cons.IH)
qed

lemma emap_append:
  "emap f (xs @ ys) = ebind (emap f xs) (\<lambda>a. ebind (emap f ys) (\<lambda>b. Inr (a @ b)))"
proof (induction xs)
  case Nil
  show ?case by (cases "emap f ys") simp_all
next
  case (Cons x xs)
  show ?case
    by (cases "f x"; cases "emap f xs"; cases "emap f ys") (simp_all add: Cons.IH)
qed

lemma keep_first_subset: "set (keep_first f seen xs) \<subseteq> set xs"
  by (induction xs arbitrary: seen) auto

lemma keep_first_keys:
  "f ` set (keep_first f seen xs) = f ` set xs - set seen"
  by (induction xs arbitrary: seen) auto

lemma keep_first_distinct: "distinct (map f (keep_first f seen xs))"
proof (induction xs arbitrary: seen)
  case Nil
  show ?case by simp
next
  case (Cons x xs)
  have "f x \<notin> f ` set (keep_first f (f x # seen) xs)"
    by (simp add: keep_first_keys)
  with Cons.IH show ?case by simp
qed

lemma keep_first_is_first:
  "x \<in> set (keep_first f seen xs) \<Longrightarrow> find (\<lambda>y. f y = f x) xs = Some x"
proof (induction xs arbitrary: seen)
  case Nil
  then show ?case by simp
next
  case (Cons a xs)
  show ?case
  proof (cases "f a \<in> set seen")
    case True
    with Cons.prems have mem: "x \<in> set (keep_first f seen xs)" by simp
    then have "f x \<in> f ` set xs - set seen" using keep_first_keys [of f seen xs] by blast
    with True have "f a \<noteq> f x" by auto
    with Cons.IH [OF mem] show ?thesis by simp
  next
    case False
    with Cons.prems have "x = a \<or> x \<in> set (keep_first f (f a # seen) xs)" by simp
    then show ?thesis
    proof
      assume "x = a"
      then show ?thesis by simp
    next
      assume mem: "x \<in> set (keep_first f (f a # seen) xs)"
      then have "f x \<in> f ` set xs - set (f a # seen)"
        using keep_first_keys [of f "f a # seen" xs] by blast
      then have "f a \<noteq> f x" by auto
      with Cons.IH [OF mem] show ?thesis by simp
    qed
  qed
qed

lemma concat_batches: "concat (batches xs) = xs"
proof (induction xs rule: batches.induct)
  case (1 xs)
  show ?case
  proof (cases "xs = []")
    case True
    then show ?thesis by (subst batches.simps) simp
  next
    case False
    with "1" show ?thesis by (subst batches.simps) simp
  qed
qed

lemma foldl_batches: "foldl (\<lambda>a b. foldl g a b) acc (batches xs) = foldl g acc xs"
proof -
  have "foldl (\<lambda>a b. foldl g a b) acc bs = foldl g acc (concat bs)" for bs
    by (induction bs arbitrary: acc) simp_all
  then show ?thesis by (simp add: concat_batches)
qed

lemma process_files_foldl:
  "process_files P read_json acc files = foldl (process_file P read_json) acc files"
  by (simp add: process_files_def foldl_batches)

subsection \<open>Deduplication and sorting\<close>

lemma drop_duplicates_Inr:
  "drop_duplicates cols df = Inr out \<longleftrightarrow> rows_hashable cols df \<and> out = keep_first (row_key cols) [] df"
  by (auto simp: drop_duplicates_def)

lemma drop_duplicates_distinct:
  "drop_duplicates cols df = Inr out \<Longrightarrow> distinct (map (row_key cols) out)"
  by (simp add: drop_duplicates_Inr keep_first_distinct)

lemma drop_duplicates_keys:
  "drop_duplicates cols df = Inr out \<Longrightarrow> row_key cols ` set out = row_key cols ` set df"
  by (simp add: drop_duplicates_Inr keep_first_keys)

lemma drop_duplicates_first:
  "drop_duplicates cols df = Inr out \<Longrightarrow> r \<in> set out
   \<Longrightarrow> find (\<lambda>x. row_key cols x = row_key cols r) df = Some r"
  by (simp add: drop_duplicates_Inr keep_first_is_first)

lemma sort_values_Inr:
  "sort_values cols df = Inr out \<longleftrightarrow> rows_hashable cols df \<and> out = sort_key (sort_by cols) df"
  by (auto simp: sort_values_def)

lemma sort_values_sorted:
  "sort_values cols df = Inr out \<Longrightarrow> sorted (map (sort_by cols) out)"
  by (simp add: sort_values_Inr)

lemma sort_values_mset: "sort_values cols df = Inr out \<Longrightarrow> mset out = mset df"
  by (simp add: sort_values_Inr)

lemma sort_values_stable:
  "sort_values cols df = Inr out
   \<Longrightarrow> filter (\<lambda>r. sort_by cols r = k) out = filter (\<lambda>r. sort_by cols r = k) df"
  by (simp add: sort_values_Inr sort_key_stable)

lemma sort_rank_inj: "sort_rank a = sort_rank b \<longleftrightarrow> a = b"
  by (cases a; cases b) simp_all

lemma sort_by_eq_iff: "sort_by cols r = sort_by cols r' \<longleftrightarrow> row_key cols r = row_key cols r'"
proof -
  have "inj (sort_rank :: 'a hkey \<Rightarrow> nat \<times> rat \<times> string \<times> 'a option)"
    by (simp add: inj_def sort_rank_inj)
  from inj_map_eq_map [OF this] show ?thesis by (simp add: sort_by_def)
qed

lemma dedup_sorted_cases:
  assumes "dedup_sorted cols combined = Inr tbl"
  shows "\<exists>kept. drop_duplicates cols combined = Inr kept
           \<and> sort_values [''market_id'', ''publish_time''] kept = Inr tbl"
proof (cases "combined = []")
  case True
  with assms have "tbl = []" by (simp add: dedup_sorted_def)
  with True show ?thesis
    by (simp add: drop_duplicates_def sort_values_def rows_hashable_def)
next
  case False
  with assms show ?thesis by (simp add: dedup_sorted_def ebind_eq_Inr_iff)
qed

lemma dedup_sorted_props:
  assumes "dedup_sorted cols combined = Inr tbl"
  shows "distinct (map (row_key cols) tbl)"
    and "row_key cols ` set tbl = row_key cols ` set combined"
    and "r \<in> set tbl \<Longrightarrow> find (\<lambda>x. row_key cols x = row_key cols r) combined = Some r"
    and "sorted (map (sort_by [''market_id'', ''publish_time'']) tbl)"
proof -
  from dedup_sorted_cases [OF assms] obtain kept where
    k: "drop_duplicates cols combined = Inr kept" and
    s: "sort_values [''market_id'', ''publish_time''] kept = Inr tbl" by blast
  have m: "mset tbl = mset kept" by (rule sort_values_mset [OF s])
  then have "mset (map (row_key cols) tbl) = mset (map (row_key cols) kept)" by simp
  then have "distinct (map (row_key cols) tbl) = distinct (map (row_key cols) kept)"
    by (rule mset_eq_imp_distinct_iff)
  then show "distinct (map (row_key cols) tbl)" by (simp add: drop_duplicates_distinct [OF k])
  from m have st: "set tbl = set kept" by (rule mset_eq_setD)
  then show "row_key cols ` set tbl = row_key cols ` set combined"
    by (simp add: drop_duplicates_keys [OF k])
  show "sorted (map (sort_by [''market_id'', ''publish_time'']) tbl)"
    by (rule sort_values_sorted [OF s])
  show "find (\<lambda>x. row_key cols x = row_key cols r) combined = Some r" if "r \<in> set tbl"
    using that st drop_duplicates_first [OF k] by simp
qed

subsection \<open>Files and days\<close>

lemma read_betfair_bz2_eq:
  "read_betfair_bz2 read_json f = Inr (case read_json f of Inl e \<Rightarrow> empty_frame | Inr df \<Rightarrow> df)"
  by (simp add: read_betfair_bz2_def split: sum.splits)

lemma df_empty_empty_frame [simp]: "df_empty empty_frame"
  by (simp add: df_empty_def empty_frame_def)

lemma process_file_undecodable:
  "read_json f = Inl e \<Longrightarrow> process_file P read_json acc f = acc"
  by (simp add: process_file_def read_betfair_bz2_def)

lemma process_file_empty:
  "read_json f = Inr df \<Longrightarrow> df_empty df \<Longrightarrow> process_file P read_json acc f = acc"
  by (simp add: process_file_def read_betfair_bz2_def)

lemma process_file_parse_error:
  "read_json f = Inr df \<Longrightarrow> \<not> df_empty df \<Longrightarrow> parse_betfair_stream P df = Inl e
   \<Longrightarrow> process_file P read_json acc f
       = ((fst acc)\<lparr>all_raw_dfs := all_raw_dfs (fst acc) @ [df]\<rparr>, snd acc)"
  by (simp add: process_file_def read_betfair_bz2_def)

lemma process_file_parsed:
  "read_json f = Inr df \<Longrightarrow> \<not> df_empty df \<Longrightarrow> parse_betfair_stream P df = Inr (m, rs, rc)
   \<Longrightarrow> process_file P read_json acc f
       = ((fst acc)\<lparr>all_raw_dfs := all_raw_dfs (fst acc) @ [df],
             all_markets := all_markets (fst acc) @ (if m = [] then [] else [m]),
             all_runner_static := all_runner_static (fst acc) @ (if rs = [] then [] else [rs])\<rparr>,
          snd acc @ (if rc = [] then [] else [rc]))"
  by (simp add: process_file_def read_betfair_bz2_def)

lemma process_file_snd:
  "snd (process_file P read_json acc f) = snd acc @ file_changes P read_json f"
proof (cases "read_json f")
  case (Inl e)
  then show ?thesis by (simp add: process_file_undecodable file_changes_def)
next
  case (Inr df)
  show ?thesis
  proof (cases "df_empty df")
    case True
    with Inr show ?thesis by (simp add: process_file_empty file_changes_def)
  next
    case False
    show ?thesis
    proof (cases "parse_betfair_stream P df")
      case (Inl e)
      with Inr False show ?thesis by (simp add: process_file_parse_error file_changes_def)
    next
      case r: (Inr t)
      obtain m rs rc where t: "t = (m, rs, rc)" by (cases t) auto
      with Inr False r show ?thesis by (simp add: process_file_parsed file_changes_def)
    qed
  qed
qed

lemma process_file_raw:
  "all_raw_dfs (fst (process_file P read_json acc f))
     = all_raw_dfs (fst acc) @ retained_frames read_json [f]"
proof (cases "read_json f")
  case (Inl e)
  then show ?thesis by (simp add: process_file_undecodable retained_frames_def)
next
  case (Inr df)
  show ?thesis
  proof (cases "df_empty df")
    case True
    with Inr show ?thesis by (simp add: process_file_empty retained_frames_def)
  next
    case False
    show ?thesis
    proof (cases "parse_betfair_stream P df")
      case (Inl e)
      with Inr False show ?thesis by (simp add: process_file_parse_error retained_frames_def)
    next
      case r: (Inr t)
      obtain m rs rc where t: "t = (m, rs, rc)" by (cases t) auto
      with Inr False r show ?thesis by (simp add: process_file_parsed retained_frames_def)
    qed
  qed
qed

lemma retained_frames_append:
  "retained_frames read_json (xs @ ys) = retained_frames read_json xs @ retained_frames read_json ys"
  by (simp add: retained_frames_def)

lemma process_files_snd:
  "snd (process_files P read_json acc files)
     = snd acc @ concat (map (file_changes P read_json) files)"
  unfolding process_files_foldl
  by (induction files arbitrary: acc) (simp_all add: process_file_snd)

lemma process_files_raw:
  "all_raw_dfs (fst (process_files P read_json acc files))
     = all_raw_dfs (fst acc) @ retained_frames read_json files"
  unfolding process_files_foldl
proof (induction files arbitrary: acc)
  case Nil
  show ?case by (simp add: retained_frames_def)
next
  case (Cons f files)
  have "retained_frames read_json (f # files)
          = retained_frames read_json [f] @ retained_frames read_json files"
    using retained_frames_append [of read_json "[f]" files] by simp
  then show ?case by (simp add: Cons.IH process_file_raw)
qed

lemma flush_day_Some:
  "flush_day day_runner_changes = Inr (Some daily_prices)
   \<longleftrightarrow> day_runner_changes \<noteq> []
       \<and> sort_values [''market_id'', ''publish_time''] (concat day_runner_changes) = Inr daily_prices"
  by (auto simp: flush_day_def ebind_eq_Inr_iff)

lemma process_days_written:
  "(day, tbl) \<in> set (fst (process_days P read_json st ds))
   \<Longrightarrow> \<exists>files. (day, files) \<in> set ds
         \<and> flush_day (concat (map (file_changes P read_json) files)) = Inr (Some tbl)"
proof (induction ds arbitrary: st)
  case Nil
  then show ?case by simp
next
  case (Cons d ds)
  let ?acc = "process_files P read_json (st, []) (snd d)"
  have buf: "snd ?acc = concat (map (file_changes P read_json) (snd d))"
    by (simp add: process_files_snd)
  show ?case
  proof (cases "flush_day (snd ?acc)")
    case (Inl e)
    with Cons.prems show ?thesis by (simp add: Let_def)
  next
    case (Inr r)
    show ?thesis
    proof (cases r)
      case None
      with Inr Cons.prems have "(day, tbl) \<in> set (fst (process_days P read_json (fst ?acc) ds))"
        by (simp add: Let_def)
      from Cons.IH [OF this] show ?thesis by auto
    next
      case (Some daily_prices)
      with Inr Cons.prems have
        "(day, tbl) = (fst d, daily_prices)
         \<or> (day, tbl) \<in> set (fst (process_days P read_json (fst ?acc) ds))"
        by (simp add: Let_def)
      then show ?thesis
      proof
        assume "(day, tbl) = (fst d, daily_prices)"
        with Inr Some buf have "(day, snd d) \<in> set (d # ds)"
          and "flush_day (concat (map (file_changes P read_json) (snd d))) = Inr (Some tbl)"
          by (simp_all add: prod_eq_iff)
        then show ?thesis by blast
      next
        assume "(day, tbl) \<in> set (fst (process_days P read_json (fst ?acc) ds))"
        from Cons.IH [OF this] show ?thesis by auto
      qed
    qed
  qed
qed

lemma process_days_raw:
  "snd (process_days P read_json st ds) = Inr st'
   \<Longrightarrow> all_raw_dfs st' = all_raw_dfs st @ retained_frames read_json (concat (map snd ds))"
proof (induction ds arbitrary: st)
  case Nil
  then show ?case by (simp add: retained_frames_def)
next
  case (Cons d ds)
  let ?acc = "process_files P read_json (st, []) (snd d)"
  have raw: "all_raw_dfs (fst ?acc) = all_raw_dfs st @ retained_frames read_json (snd d)"
    by (simp add: process_files_raw)
  from Cons.prems have "snd (process_days P read_json (fst ?acc) ds) = Inr st'"
    by (simp add: Let_def split: sum.splits option.splits)
  from Cons.IH [OF this] raw show ?case
    by (simp add: retained_frames_append)
qed

subsection \<open>The end of the month\<close>

lemma sort_values_stable_key:
  assumes "sort_values cols df = Inr out"
  shows "filter (\<lambda>r. row_key cols r = k) out = filter (\<lambda>r. row_key cols r = k) df"
proof -
  have "inj (sort_rank :: 'a hkey \<Rightarrow> nat \<times> rat \<times> string \<times> 'a option)"
    by (simp add: inj_def sort_rank_inj)
  from inj_map_eq_map [OF this]
  have "(sort_by cols r = map sort_rank k) = (row_key cols r = k)" for r :: "'a prow"
    by (simp add: sort_by_def)
  with sort_values_stable [OF assms, of "map sort_rank k"] show ?thesis by simp
qed

lemma process_month_outcome:
  assumes "outcome (process_month P read_json dir year month) = Inr (Some (tables, summary))"
  shows "month_exists dir"
    and "\<exists>st. snd (process_days P read_json init_state (days dir)) = Inr st
           \<and> finish_month P dir year month
                (fst (process_days P read_json init_state (days dir))) st
              = Inr (Some (tables, summary))"
proof -
  show e: "month_exists dir"
    using assms by (cases "month_exists dir") (simp_all add: process_month_def)
  with assms show "\<exists>st. snd (process_days P read_json init_state (days dir)) = Inr st
           \<and> finish_month P dir year month
                (fst (process_days P read_json init_state (days dir))) st
              = Inr (Some (tables, summary))"
    by (simp add: process_month_def Let_def ebind_eq_Inr_iff)
qed

lemma finish_month_Some:
  assumes "finish_month P dir year month written st = Inr (Some (tables, summary))"
  shows "create_reference_tables P (all_raw_dfs st)
           = Inr (market_reference tables, runner_reference tables)"
    and "dedup_sorted [''market_id'', ''status'', ''in_play'', ''version''] (concat (all_markets st))
           = Inr (market_timeline tables)"
    and "dedup_sorted [''market_id'', ''runner_id'', ''status''] (concat (all_runner_static st))
           = Inr (runner_status tables)"
    and "summary =
           [(''year'', JNum (of_int year)),
            (''month'', JStr month),
            (''num_markets'', JNum (of_nat (length (market_reference tables)))),
            (''num_runners'', JNum (of_nat (length (runner_reference tables)))),
            (''num_daily_files'',
               JNum (of_nat (length (remdups (prior_days dir @ map fst written)) + prior_other dir)))]"
  using assms by (auto simp: finish_month_def ebind_eq_Inr_iff)

subsection \<open>The rows of a block\<close>

lemma emap_Inr_all:
  assumes "emap f xs = Inr ys" and "\<And>x y. x \<in> set xs \<Longrightarrow> f x = Inr y \<Longrightarrow> Q y"
  shows "\<forall>y\<in>set ys. Q y"
proof -
  from assms(1) have "list_all2 (\<lambda>x y. f x = Inr y) xs ys" by (simp add: emap_Inr_list_all2)
  then show ?thesis using assms(2)
    by (induction rule: list_all2_induct) auto
qed

lemma col_simps [simp]:
  "col c [] = Val JNull"
  "col c ((k, v) # r) = (if c = k then v else col c r)"
  by (simp_all add: col_def)

lemma market_record_stamp:
  "market_record market_id publish_time mkt_def = Inr r
   \<Longrightarrow> col ''market_id'' r = Val market_id \<and> col ''publish_time'' r = publish_time"
  by (auto simp: market_record_def split: if_splits)

lemma runner_static_record_stamp:
  "runner_static_record P market_id publish_time runner = Inr r
   \<Longrightarrow> col ''market_id'' r = Val market_id \<and> col ''publish_time'' r = publish_time"
  by (auto simp: runner_static_record_def ebind_eq_Inr_iff split: if_splits)

lemma runner_change_record_stamp:
  "runner_change_record market_id publish_time rc = Inr r
   \<Longrightarrow> col ''market_id'' r = Val market_id \<and> col ''publish_time'' r = publish_time"
  by (auto simp: runner_change_record_def split: if_splits)

lemma parse_definition_stamp:
  assumes "parse_definition P market_id publish_time market = Inr (ms, rs)"
  shows "\<forall>r\<in>set ms \<union> set rs.
           col ''market_id'' r = Val market_id \<and> col ''publish_time'' r = publish_time"
proof -
  from assms obtain mkt_def m where
    m: "market_record market_id publish_time mkt_def = Inr m" and ms: "ms = [m]" and
    rs: "rs = [] \<or> (\<exists>xs. emap (runner_static_record P market_id publish_time) xs = Inr rs)"
    by (auto simp: parse_definition_def ebind_eq_Inr_iff split: if_splits)
  from rs have "\<forall>r\<in>set rs.
      col ''market_id'' r = Val market_id \<and> col ''publish_time'' r = publish_time"
  proof
    assume "rs = []"
    then show ?thesis by simp
  next
    assume "\<exists>xs. emap (runner_static_record P market_id publish_time) xs = Inr rs"
    then obtain xs where "emap (runner_static_record P market_id publish_time) xs = Inr rs" ..
    then show ?thesis by (rule emap_Inr_all) (rule runner_static_record_stamp)
  qed
  with market_record_stamp [OF m] ms show ?thesis by auto
qed

lemma parse_changes_stamp:
  assumes "parse_changes market_id publish_time market = Inr cs"
  shows "\<forall>r\<in>set cs. col ''market_id'' r = Val market_id \<and> col ''publish_time'' r = publish_time"
proof -
  from assms obtain xs where "emap (runner_change_record market_id publish_time) xs = Inr cs"
    by (auto simp: parse_changes_def ebind_eq_Inr_iff)
  then show ?thesis by (rule emap_Inr_all) (rule runner_change_record_stamp)
qed

lemma parse_market_stamp:
  assumes "parse_market P publish_time market = Inr t"
  shows "\<forall>r\<in>set (fst t) \<union> set (fst (snd t)) \<union> set (snd (snd t)).
           col ''market_id'' r = Val (get market ''id'') \<and> col ''publish_time'' r = publish_time"
proof -
  from assms obtain mr cs where
    mr: "mr = ([], []) \<or> parse_definition P (get market ''id'') publish_time market = Inr mr" and
    cs: "cs = [] \<or> parse_changes (get market ''id'') publish_time market = Inr cs" and
    t: "t = (fst mr, snd mr, cs)"
    by (auto simp: parse_market_def dict_get_def ebind_eq_Inr_iff split: if_splits)
  from mr have a: "\<forall>r\<in>set (fst mr) \<union> set (snd mr).
      col ''market_id'' r = Val (get market ''id'') \<and> col ''publish_time'' r = publish_time"
  proof
    assume "mr = ([], [])"
    then show ?thesis by simp
  next
    assume "parse_definition P (get market ''id'') publish_time market = Inr mr"
    then have "parse_definition P (get market ''id'') publish_time market = Inr (fst mr, snd mr)"
      by simp
    then show ?thesis by (rule parse_definition_stamp)
  qed
  from cs have b: "\<forall>r\<in>set cs.
      col ''market_id'' r = Val (get market ''id'') \<and> col ''publish_time'' r = publish_time"
  proof
    assume "cs = []"
    then show ?thesis by simp
  next
    assume "parse_changes (get market ''id'') publish_time market = Inr cs"
    then show ?thesis by (rule parse_changes_stamp)
  qed
  from a b t show ?thesis by auto
qed

lemma concat3_Nil [simp]: "concat3 [] = ([], [], [])"
  by (simp add: concat3_def)

lemma concat3_Cons [simp]:
  "concat3 (t # ts) =
     (fst t @ fst (concat3 ts), fst (snd t) @ fst (snd (concat3 ts)),
      snd (snd t) @ snd (snd (concat3 ts)))"
  by (simp add: concat3_def)

lemma concat3_append:
  "concat3 (xs @ ys) =
     (fst (concat3 xs) @ fst (concat3 ys), fst (snd (concat3 xs)) @ fst (snd (concat3 ys)),
      snd (snd (concat3 xs)) @ snd (snd (concat3 ys)))"
  by (simp add: concat3_def)

lemma list_all2_choice:
  "list_all2 (\<lambda>x y. \<exists>z. y = g z \<and> Q x z) xs ys \<Longrightarrow> \<exists>zs. ys = map g zs \<and> list_all2 Q xs zs"
proof (induction rule: list_all2_induct)
  case Nil
  show ?case by simp
next
  case (Cons x xs y ys)
  then obtain z zs where "y = g z" "Q x z" "ys = map g zs" "list_all2 Q xs zs" by blast
  then have "y # ys = map g (z # zs) \<and> list_all2 Q (x # xs) (z # zs)" by simp
  then show ?case by (rule exI)
qed

lemma concat3_map_Nil: "concat3 (map concat3 (map (\<lambda>x. []) xs)) = ([], [], [])"
  by (induction xs) simp_all

lemma list_all2_map_Nil_when:
  "(\<And>x. x \<in> set xs \<Longrightarrow> A x)
   \<Longrightarrow> list_all2 (\<lambda>x ts. (A x \<and> ts = []) \<or> Q x ts) xs (map (\<lambda>x. []) xs)"
  by (induction xs) simp_all

lemma mc_data_empty_frame: "df_empty df \<Longrightarrow> row \<in> set (rows df) \<Longrightarrow> mc_data df row = []"
  by (auto simp: df_empty_def mc_data_def)

lemma parse_row_Inr_blocks:
  assumes "parse_row P df row = Inr t3"
  shows "\<exists>ts. t3 = concat3 ts
           \<and> ((mc_data df row = [] \<and> ts = [])
                \<or> (\<exists>t. publish_time_of P df row = Inr t
                       \<and> emap (parse_market P t) (mc_data df row) = Inr ts))"
proof (cases "mc_data df row = []")
  case True
  with assms have "t3 = concat3 []" by (simp add: parse_row_def)
  with True show ?thesis by blast
next
  case False
  with assms show ?thesis by (auto simp: parse_row_def ebind_eq_Inr_iff)
qed

subsection \<open>Records and blocks that emit nothing\<close>

lemma parse_row_columns:
  "columns df = columns df' \<Longrightarrow> parse_row P df row = parse_row P df' row"
  by (simp add: parse_row_def mc_data_def publish_time_of_def)

lemma parse_row_rows_update: "parse_row P (df\<lparr>rows := rs\<rparr>) = parse_row P df"
  by (rule ext) (simp add: parse_row_columns [of "df\<lparr>rows := rs\<rparr>" df])

lemma parse_row_no_blocks: "mc_data df row = [] \<Longrightarrow> parse_row P df row = Inr ([], [], [])"
  by (simp add: parse_row_def)

lemma parse_market_bare:
  "''marketDefinition'' \<notin> fst ` set kvs \<Longrightarrow> ''rc'' \<notin> fst ` set kvs
   \<Longrightarrow> parse_market P t (JObj kvs) = Inr ([], [], [])"
  by (simp add: parse_market_def dict_get_def)

lemma not_lone_null_dicts: "list_all is_dict bs \<Longrightarrow> \<not> lone_null (JArr bs)"
proof (cases bs)
  case Nil
  then show ?thesis by simp
next
  case (Cons b bs')
  assume "list_all is_dict bs"
  with Cons obtain kvs where "b = JObj kvs" by (cases b) auto
  with Cons show ?thesis by (cases bs') simp_all
qed

lemma parse_rows_skip:
  assumes "parse_row P df row = Inr ([], [], [])"
  shows "ebind (emap (parse_row P df) (xs @ row # ys)) (\<lambda>ts. Inr (concat3 ts))
       = ebind (emap (parse_row P df) (xs @ ys)) (\<lambda>ts. Inr (concat3 ts))"
proof (cases "emap (parse_row P df) xs")
  case (Inl e)
  then show ?thesis by (simp add: emap_append)
next
  case a: (Inr as)
  show ?thesis
  proof (cases "emap (parse_row P df) ys")
    case (Inl e)
    with a assms show ?thesis by (simp add: emap_append)
  next
    case (Inr bs)
    with a assms show ?thesis by (simp add: emap_append concat3_append)
  qed
qed

lemma parse_stream_skip:
  assumes "mc_data df row = []"
  shows "parse_betfair_stream P (df\<lparr>rows := xs @ row # ys\<rparr>)
       = parse_betfair_stream P (df\<lparr>rows := xs @ ys\<rparr>)"
proof -
  note r = parse_row_rows_update
  have z: "parse_row P df row = Inr ([], [], [])"
    using assms by (rule parse_row_no_blocks)
  show ?thesis
  proof (cases "columns df = []")
    case True
    then show ?thesis by (simp add: parse_betfair_stream_def df_empty_def)
  next
    case False
    show ?thesis
    proof (cases "xs @ ys = []")
      case True
      with False z show ?thesis
        by (simp add: parse_betfair_stream_def df_empty_def r)
    next
      case n: False
      with False parse_rows_skip [OF z, of xs ys] show ?thesis
        by (simp add: parse_betfair_stream_def df_empty_def r)
    qed
  qed
qed

subsection \<open>Dicts without a key\<close>

lemma map_of_filter_key:
  "map_of (filter (\<lambda>kv. fst kv \<noteq> k) kvs) k' = (if k' = k then None else map_of kvs k')"
  by (induction kvs) auto

lemma get_filter_key:
  "get (JObj (filter (\<lambda>kv. fst kv \<noteq> k) kvs)) k' = (if k' = k then JNull else get (JObj kvs) k')"
  by (simp add: map_of_filter_key)

subsection \<open>A block with and without its id\<close>

lemma emap_ebind_Inr:
  "emap (\<lambda>x. ebind (h x) (\<lambda>y. Inr (g y))) xs = ebind (emap h xs) (\<lambda>ys. Inr (map g ys))"
proof (induction xs)
  case Nil
  show ?case by simp
next
  case (Cons x xs)
  show ?case by (cases "h x"; cases "emap h xs") (simp_all add: Cons.IH)
qed

lemma market_record_null_id:
  "market_record JNull t d = ebind (market_record v t d) (\<lambda>r. Inr (with_market_id JNull r))"
  by (simp add: market_record_def with_market_id_def)

lemma runner_static_record_null_id:
  "runner_static_record P JNull t
     = (\<lambda>x. ebind (runner_static_record P v t x) (\<lambda>r. Inr (with_market_id JNull r)))"
proof (rule ext)
  fix x
  show "runner_static_record P JNull t x
      = ebind (runner_static_record P v t x) (\<lambda>r. Inr (with_market_id JNull r))"
    by (cases "to_datetime P (get x ''removalDate'')")
       (simp_all add: runner_static_record_def with_market_id_def)
qed

lemma runner_change_record_null_id:
  "runner_change_record JNull t
     = (\<lambda>x. ebind (runner_change_record v t x) (\<lambda>r. Inr (with_market_id JNull r)))"
  by (rule ext) (simp add: runner_change_record_def with_market_id_def)

lemma py_item_skip_id:
  "k \<noteq> ''id'' \<Longrightarrow> py_item (JObj ((''id'', v) # kvs)) k = py_item (JObj kvs) k"
  by simp

lemma parse_changes_null_id:
  "parse_changes JNull t (JObj kvs)
     = ebind (parse_changes v t (JObj ((''id'', v) # kvs)))
         (\<lambda>cs. Inr (map (with_market_id JNull) cs))"
proof (cases "py_item (JObj kvs) ''rc''")
  case (Inl e)
  then show ?thesis by (simp add: parse_changes_def)
next
  case (Inr rcs)
  then show ?thesis
    by (cases "py_iter rcs")
       (simp_all add: parse_changes_def runner_change_record_null_id [of t v] emap_ebind_Inr)
qed

lemma parse_definition_null_id:
  "parse_definition P JNull t (JObj kvs)
     = ebind (parse_definition P v t (JObj ((''id'', v) # kvs)))
         (\<lambda>mr. Inr (map (with_market_id JNull) (fst mr), map (with_market_id JNull) (snd mr)))"
proof (cases "py_item (JObj kvs) ''marketDefinition''")
  case (Inl e)
  then show ?thesis by (simp add: parse_definition_def)
next
  case d: (Inr mkt_def)
  show ?thesis
  proof (cases "market_record v t mkt_def")
    case (Inl e)
    with d show ?thesis by (simp add: parse_definition_def market_record_null_id [of t mkt_def v])
  next
    case m: (Inr m)
    show ?thesis
    proof (cases "py_contains ''runners'' mkt_def")
      case (Inl e)
      with d m show ?thesis
        by (simp add: parse_definition_def market_record_null_id [of t mkt_def v])
    next
      case c: (Inr has_runners)
      show ?thesis
      proof (cases has_runners)
        case False
        with d m c show ?thesis
          by (simp add: parse_definition_def market_record_null_id [of t mkt_def v])
      next
        case True
        show ?thesis
        proof (cases "py_item mkt_def ''runners''")
          case (Inl e)
          with d m c True show ?thesis
            by (simp add: parse_definition_def market_record_null_id [of t mkt_def v])
        next
          case r: (Inr rs)
          show ?thesis
          proof (cases "py_iter rs")
            case (Inl e)
            with d m c True r show ?thesis
              by (simp add: parse_definition_def market_record_null_id [of t mkt_def v])
          next
            case i: (Inr xs)
            show ?thesis
            proof (cases "emap (runner_static_record P v t) xs")
              case (Inl e)
              with d m c True r i show ?thesis
                by (simp add: parse_definition_def market_record_null_id [of t mkt_def v]
                      runner_static_record_null_id [of P t v] emap_ebind_Inr)
            next
              case (Inr ys)
              with d m c True r i show ?thesis
                by (simp add: parse_definition_def market_record_null_id [of t mkt_def v]
                      runner_static_record_null_id [of P t v] emap_ebind_Inr)
            qed
          qed
        qed
      qed
    qed
  qed
qed

lemma parse_market_null_id:
  assumes "''id'' \<notin> fst ` set kvs"
  shows "parse_market P t (JObj kvs)
       = ebind (parse_market P t (JObj ((''id'', v) # kvs))) (\<lambda>out. Inr (null_ids out))"
proof -
  from assms have "map_of kvs ''id'' = None"
    by (simp add: map_of_eq_None_iff)
  then have g: "get (JObj kvs) ''id'' = JNull"
    by simp
  show ?thesis
  proof (cases "''marketDefinition'' \<in> fst ` set kvs")
    case d: True
    show ?thesis
    proof (cases "parse_definition P v t (JObj ((''id'', v) # kvs))")
      case (Inl e)
      with d g show ?thesis
        by (simp add: parse_market_def dict_get_def parse_definition_null_id [of P t kvs v])
    next
      case m: (Inr mr)
      show ?thesis
      proof (cases "''rc'' \<in> fst ` set kvs")
        case True
        with d g m show ?thesis
          by (cases "parse_changes v t (JObj ((''id'', v) # kvs))")
             (simp_all add: parse_market_def dict_get_def parse_definition_null_id [of P t kvs v]
                parse_changes_null_id [of t kvs v] null_ids_def)
      next
        case False
        with d g m show ?thesis
          by (simp add: parse_market_def dict_get_def parse_definition_null_id [of P t kvs v]
                null_ids_def)
      qed
    qed
  next
    case d: False
    show ?thesis
    proof (cases "''rc'' \<in> fst ` set kvs")
      case True
      with d g show ?thesis
        by (cases "parse_changes v t (JObj ((''id'', v) # kvs))")
           (simp_all add: parse_market_def dict_get_def parse_changes_null_id [of t kvs v]
              null_ids_def)
    next
      case False
      with d g show ?thesis
        by (simp add: parse_market_def dict_get_def null_ids_def)
    qed
  qed
qed

lemma parse_market_counts:
  assumes "parse_market P t (JObj kvs) = Inr out"
  shows "(''marketDefinition'' \<in> fst ` set kvs \<longrightarrow> length (fst out) = 1)
       \<and> (\<forall>rcs. map_of kvs ''rc'' = Some (JArr rcs) \<longrightarrow> length (snd (snd out)) = length rcs)"
proof (intro conjI allI impI)
  assume "''marketDefinition'' \<in> fst ` set kvs"
  with assms show "length (fst out) = 1"
    by (auto simp: parse_market_def dict_get_def parse_definition_def ebind_eq_Inr_iff)
next
  fix rcs
  assume m: "map_of kvs ''rc'' = Some (JArr rcs)"
  then have "(''rc'', JArr rcs) \<in> set kvs" by (rule map_of_SomeD)
  then have "''rc'' \<in> fst ` set kvs" by force
  with assms m have "emap (runner_change_record (get (JObj kvs) ''id'') t) rcs = Inr (snd (snd out))"
    by (auto simp: parse_market_def dict_get_def parse_changes_def ebind_eq_Inr_iff)
  then show "length (snd (snd out)) = length rcs" by (rule emap_Inr_length)
qed

subsection \<open>The event accumulators of a month\<close>

lemma process_file_markets:
  "all_markets (fst (process_file P read_json acc f))
     = all_markets (fst acc) @ file_markets P read_json f"
proof (cases "read_json f")
  case (Inl e)
  then show ?thesis by (simp add: process_file_undecodable file_markets_def)
next
  case (Inr df)
  show ?thesis
  proof (cases "df_empty df")
    case True
    with Inr show ?thesis by (simp add: process_file_empty file_markets_def)
  next
    case False
    show ?thesis
    proof (cases "parse_betfair_stream P df")
      case (Inl e)
      with Inr False show ?thesis by (simp add: process_file_parse_error file_markets_def)
    next
      case r: (Inr t)
      obtain m rs rc where t: "t = (m, rs, rc)" by (cases t) auto
      with Inr False r show ?thesis by (simp add: process_file_parsed file_markets_def)
    qed
  qed
qed

lemma process_file_runner_static:
  "all_runner_static (fst (process_file P read_json acc f))
     = all_runner_static (fst acc) @ file_runner_static P read_json f"
proof (cases "read_json f")
  case (Inl e)
  then show ?thesis by (simp add: process_file_undecodable file_runner_static_def)
next
  case (Inr df)
  show ?thesis
  proof (cases "df_empty df")
    case True
    with Inr show ?thesis by (simp add: process_file_empty file_runner_static_def)
  next
    case False
    show ?thesis
    proof (cases "parse_betfair_stream P df")
      case (Inl e)
      with Inr False show ?thesis by (simp add: process_file_parse_error file_runner_static_def)
    next
      case r: (Inr t)
      obtain m rs rc where t: "t = (m, rs, rc)" by (cases t) auto
      with Inr False r show ?thesis by (simp add: process_file_parsed file_runner_static_def)
    qed
  qed
qed

lemma process_files_markets:
  "all_markets (fst (process_files P read_json acc files))
     = all_markets (fst acc) @ concat (map (file_markets P read_json) files)"
  unfolding process_files_foldl
  by (induction files arbitrary: acc) (simp_all add: process_file_markets)

lemma process_files_runner_static:
  "all_runner_static (fst (process_files P read_json acc files))
     = all_runner_static (fst acc) @ concat (map (file_runner_static P read_json) files)"
  unfolding process_files_foldl
  by (induction files arbitrary: acc) (simp_all add: process_file_runner_static)

lemma process_days_events:
  "snd (process_days P read_json st ds) = Inr st'
   \<Longrightarrow> all_markets st'
         = all_markets st @ concat (map (file_markets P read_json) (concat (map snd ds)))
       \<and> all_runner_static st'
         = all_runner_static st @ concat (map (file_runner_static P read_json) (concat (map snd ds)))"
proof (induction ds arbitrary: st)
  case Nil
  then show ?case by simp
next
  case (Cons d ds)
  let ?acc = "process_files P read_json (st, []) (snd d)"
  from Cons.prems have "snd (process_days P read_json (fst ?acc) ds) = Inr st'"
    by (simp add: Let_def split: sum.splits option.splits)
  from Cons.IH [OF this] show ?case
    by (simp add: process_files_markets process_files_runner_static)
qed

lemma file_contributions_failed:
  assumes "(\<exists>e. read_json f = Inl e) \<or> (\<exists>df e. read_json f = Inr df \<and> parse_betfair_stream P df = Inl e)"
  shows "file_markets P read_json f = []" "file_runner_static P read_json f = []"
    "file_changes P read_json f = []"
  using assms by (auto simp: file_markets_def file_runner_static_def file_changes_def)

subsection \<open>What the month returns\<close>

lemma process_month_absent:
  "\<not> month_exists dir
   \<Longrightarrow> process_month P read_json dir year month = \<lparr>written_daily = [], outcome = Inr None\<rparr>"
  by (simp add: process_month_def)

lemma process_month_written:
  "month_exists dir
   \<Longrightarrow> written_daily (process_month P read_json dir year month)
       = fst (process_days P read_json init_state (days dir))"
  by (simp add: process_month_def Let_def)

lemma process_month_returns:
  assumes "month_exists dir"
    and "outcome (process_month P read_json dir year month) = Inr res"
  shows "\<exists>tables. res = Some
           (tables,
            [(''year'', JNum (of_int year)),
             (''month'', JStr month),
             (''num_markets'', JNum (of_nat (length (market_reference tables)))),
             (''num_runners'', JNum (of_nat (length (runner_reference tables)))),
             (''num_daily_files'',
                JNum (of_nat (length (remdups (prior_days dir
                    @ map fst (written_daily (process_month P read_json dir year month))))
                  + prior_other dir)))])"
proof -
  from assms obtain st where
    f: "finish_month P dir year month (fst (process_days P read_json init_state (days dir))) st
          = Inr res"
    by (auto simp: process_month_def Let_def ebind_eq_Inr_iff)
  then obtain tables summary where r: "res = Some (tables, summary)"
    by (auto simp: finish_month_def ebind_eq_Inr_iff)
  from finish_month_Some(4) [OF f [unfolded r]] r
    process_month_written [OF assms(1), of P read_json year month]
  show ?thesis by simp
qed

lemma process_month_references:
  assumes "outcome (process_month P read_json dir year month) = Inr (Some (tables, summary))"
  shows "create_reference_tables P (retained_frames read_json (concat (map snd (days dir))))
           = Inr (market_reference tables, runner_reference tables)"
proof -
  from process_month_outcome(2) [OF assms] obtain st where
    s: "snd (process_days P read_json init_state (days dir)) = Inr st" and
    f: "finish_month P dir year month (fst (process_days P read_json init_state (days dir))) st
          = Inr (Some (tables, summary))"
    by blast
  from process_days_raw [OF s]
  have "all_raw_dfs st = retained_frames read_json (concat (map snd (days dir)))"
    by (simp add: init_state_def)
  with finish_month_Some(1) [OF f] show ?thesis by simp
qed

lemma process_month_reference_error:
  assumes "month_exists dir"
    and "snd (process_days P read_json init_state (days dir)) = Inr st"
    and "create_reference_tables P (retained_frames read_json (concat (map snd (days dir)))) = Inl e"
  shows "outcome (process_month P read_json dir year month) = Inl e"
proof -
  from process_days_raw [OF assms(2)]
  have "all_raw_dfs st = retained_frames read_json (concat (map snd (days dir)))"
    by (simp add: init_state_def)
  with assms show ?thesis
    by (simp add: process_month_def Let_def finish_month_def)
qed

subsection \<open>The reference builder walks the blocks in order\<close>

lemma concat2_Nil [simp]: "concat2 [] = ([], [])"
  by (simp add: concat2_def)

lemma concat2_append:
  "concat2 (xs @ ys) = (fst (concat2 xs) @ fst (concat2 ys), snd (concat2 xs) @ snd (concat2 ys))"
  by (simp add: concat2_def)

lemma concat2_Cons_concat2:
  "concat2 (concat2 a # ts) = (fst (concat2 a) @ fst (concat2 ts), snd (concat2 a) @ snd (concat2 ts))"
  by (simp add: concat2_def)

lemma list_all2_concat2:
  assumes "list_all2 (\<lambda>x t. \<exists>outs. list_all2 R (g x) outs \<and> t = concat2 outs) xs ts"
  shows "\<exists>outs. list_all2 R (concat (map g xs)) outs \<and> concat2 ts = concat2 outs"
  using assms
proof (induction rule: list_all2_induct)
  case Nil
  have "list_all2 R (concat (map g [])) [] \<and> concat2 [] = concat2 []" by simp
  then show ?case by (rule exI)
next
  case (Cons x xs t ts)
  then obtain o1 o2 where a: "list_all2 R (g x) o1" and t: "t = concat2 o1"
    and b: "list_all2 R (concat (map g xs)) o2" and c: "concat2 ts = concat2 o2"
    by blast
  from a b have "list_all2 R (concat (map g (x # xs))) (o1 @ o2)"
    by (simp add: list_all2_appendI)
  moreover from t c have "concat2 (t # ts) = concat2 (o1 @ o2)"
    by (simp add: concat2_Cons_concat2 concat2_append)
  ultimately have "list_all2 R (concat (map g (x # xs))) (o1 @ o2)
      \<and> concat2 (t # ts) = concat2 (o1 @ o2)" by simp
  then show ?case by (rule exI)
qed

lemma reference_row_blocks:
  assumes "reference_row P df row = Inr t"
  shows "\<exists>outs. list_all2 (\<lambda>b out. reference_market P b = Inr out) (mc_data df row) outs
           \<and> t = concat2 outs"
  using assms by (auto simp: reference_row_def ebind_eq_Inr_iff emap_Inr_list_all2)

lemma reference_frame_blocks:
  assumes "reference_frame P df = Inr t"
  shows "\<exists>outs. list_all2 (\<lambda>b out. reference_market P b = Inr out)
                  (concat (map (mc_data df) (rows df))) outs
           \<and> t = concat2 outs"
proof (cases "df_empty df")
  case True
  then have "concat (map (mc_data df) (rows df)) = []"
    by (simp add: mc_data_empty_frame)
  moreover from True assms have "t = concat2 []" by (simp add: reference_frame_def)
  ultimately have "list_all2 (\<lambda>b out. reference_market P b = Inr out)
                  (concat (map (mc_data df) (rows df))) [] \<and> t = concat2 []" by simp
  then show ?thesis by (rule exI)
next
  case False
  with assms obtain ts where e: "emap (reference_row P df) (rows df) = Inr ts"
    and t: "t = concat2 ts"
    by (auto simp: reference_frame_def ebind_eq_Inr_iff)
  from e have "list_all2 (\<lambda>row t. reference_row P df row = Inr t) (rows df) ts"
    by (simp add: emap_Inr_list_all2)
  then have "list_all2 (\<lambda>row t. \<exists>outs. list_all2 (\<lambda>b out. reference_market P b = Inr out)
                  (mc_data df row) outs \<and> t = concat2 outs) (rows df) ts"
    by (rule list_all2_mono) (rule reference_row_blocks)
  from list_all2_concat2 [OF this] t show ?thesis by simp
qed

lemma collect_metadata_blocks:
  assumes "collect_metadata P df_list = Inr md"
  shows "\<exists>outs. list_all2 (\<lambda>b out. reference_market P b = Inr out) (blocks_of df_list) outs
           \<and> md = concat2 outs"
proof -
  from assms obtain ts where e: "emap (reference_frame P) df_list = Inr ts"
    and t: "md = concat2 ts"
    by (auto simp: collect_metadata_def ebind_eq_Inr_iff)
  from e have "list_all2 (\<lambda>df t. reference_frame P df = Inr t) df_list ts"
    by (simp add: emap_Inr_list_all2)
  then have "list_all2 (\<lambda>df t. \<exists>outs. list_all2 (\<lambda>b out. reference_market P b = Inr out)
                  (concat (map (mc_data df) (rows df))) outs \<and> t = concat2 outs) df_list ts"
    by (rule list_all2_mono) (rule reference_frame_blocks)
  from list_all2_concat2 [OF this] t show ?thesis by (simp add: blocks_of_def)
qed

lemma reference_market_Inr:
  assumes "reference_market P b = Inr out"
  shows "(\<not> definition_bearing b \<longrightarrow> fst out = [] \<and> snd out = [])
       \<and> (definition_bearing b \<longrightarrow>
            (\<exists>m. market_metadata_record P (get b ''id'') (get b ''marketDefinition'') = Inr m
                 \<and> fst out = [m])
            \<and> list_all2 (\<lambda>e r. runner_metadata_record (get b ''id'') e = Inr r)
                 (runner_entries_of b) (snd out))"
proof (cases "definition_bearing b")
  case False
  with assms have "out = ([], [])"
    by (cases "py_contains ''marketDefinition'' b")
       (auto simp: reference_market_def definition_bearing_def split: if_splits)
  with False show ?thesis by simp
next
  case True
  then have c: "py_contains ''marketDefinition'' b = Inr True"
    by (simp add: definition_bearing_def)
  with assms obtain mkt_def where i: "py_item b ''marketDefinition'' = Inr mkt_def"
    by (auto simp: reference_market_def ebind_eq_Inr_iff)
  then obtain kvs where b: "b = JObj kvs" by (cases b) auto
  with i have g: "get b ''marketDefinition'' = mkt_def"
    by (auto split: option.splits)
  from b have db: "is_dict b" by simp
  from assms c i db obtain m has_runners rs where
    m: "market_metadata_record P (get b ''id'') mkt_def = Inr m" and
    h: "py_contains ''runners'' mkt_def = Inr has_runners" and
    r: "(if has_runners
          then ebind (py_item mkt_def ''runners'') (\<lambda>rs.
               ebind (py_iter rs) (emap (runner_metadata_record (get b ''id''))))
          else Inr []) = Inr rs" and
    o: "out = ([m], rs)"
    by (auto simp: reference_market_def ebind_eq_Inr_iff dict_get_def)
  from m obtain dkvs where d: "mkt_def = JObj dkvs"
    by (cases mkt_def) (auto simp: market_metadata_record_def)
  have "list_all2 (\<lambda>e r. runner_metadata_record (get b ''id'') e = Inr r) (runner_entries_of b) rs"
  proof (cases has_runners)
    case False
    with r h g show ?thesis by (simp add: runner_entries_of_def)
  next
    case True
    with r obtain x es where x: "py_item mkt_def ''runners'' = Inr x"
      and es: "py_iter x = Inr es"
      and em: "emap (runner_metadata_record (get b ''id'')) es = Inr rs"
      by (auto simp: ebind_eq_Inr_iff)
    from x d have "get mkt_def ''runners'' = x" by (auto split: option.splits)
    with True h g es have "runner_entries_of b = es" by (simp add: runner_entries_of_def)
    with em show ?thesis by (simp add: emap_Inr_list_all2)
  qed
  with True m g o show ?thesis by simp
qed

lemma list_all2_filter_single:
  assumes "list_all2 (\<lambda>b out. (\<not> B b \<longrightarrow> fst out = []) \<and> (B b \<longrightarrow> (\<exists>m. Q b m \<and> fst out = [m]))) bs outs"
  shows "list_all2 Q (filter B bs) (concat (map fst outs))"
  using assms by (induction rule: list_all2_induct) auto

lemma list_all2_filter_many:
  assumes "list_all2 (\<lambda>b out. (\<not> B b \<longrightarrow> snd out = []) \<and> (B b \<longrightarrow> list_all2 (S b) (es b) (snd out))) bs outs"
  shows "list_all2 (\<lambda>be r. S (fst be) (snd be) r)
           (concat (map (\<lambda>b. map (Pair b) (es b)) (filter B bs))) (concat (map snd outs))"
  using assms
proof (induction rule: list_all2_induct)
  case Nil
  show ?case by simp
next
  case (Cons b bs out outs)
  show ?case
  proof (cases "B b")
    case True
    with Cons have "list_all2 (S b) (es b) (snd out)" by simp
    then have "list_all2 (\<lambda>be r. S (fst be) (snd be) r) (map (Pair b) (es b)) (snd out)"
      by (simp add: list_all2_map1)
    with True Cons.IH show ?thesis by (simp add: list_all2_appendI)
  next
    case False
    with Cons show ?thesis by simp
  qed
qed

lemma list_all2_find:
  assumes "list_all2 R xs ys" and "\<And>x y. R x y \<Longrightarrow> kx x = ky y"
    and "find (\<lambda>y. ky y = k) ys = Some r"
  shows "\<exists>x. find (\<lambda>x. kx x = k) xs = Some x \<and> R x r"
  using assms(1,3)
proof (induction rule: list_all2_induct)
  case Nil
  then show ?case by simp
next
  case (Cons x xs y ys)
  from Cons.hyps(1) have e: "kx x = ky y" by (rule assms(2))
  show ?case
  proof (cases "ky y = k")
    case True
    with Cons.prems have "r = y" by simp
    with True e Cons.hyps(1) show ?thesis by simp
  next
    case False
    with Cons.prems have "find (\<lambda>y. ky y = k) ys = Some r" by simp
    from Cons.IH [OF this] False e show ?thesis by simp
  qed
qed

lemma list_all2_keys:
  assumes "list_all2 R xs ys" and "\<And>x y. R x y \<Longrightarrow> kx x = ky y"
  shows "ky ` set ys = kx ` set xs"
  using assms(1)
proof (induction rule: list_all2_induct)
  case Nil
  show ?case by simp
next
  case (Cons x xs y ys)
  from Cons.hyps(1) have "kx x = ky y" by (rule assms(2))
  with Cons.IH show ?case by simp
qed

lemma market_metadata_record_key:
  "market_metadata_record P market_id mkt_def = Inr m
   \<Longrightarrow> [key_of (Val market_id)] = row_key [''market_id''] m"
  by (auto simp: market_metadata_record_def ebind_eq_Inr_iff row_key_def split: if_splits)

lemma runner_metadata_record_key:
  "runner_metadata_record market_id e = Inr r
   \<Longrightarrow> [key_of (Val market_id), key_of (Val (get e ''id''))]
       = row_key [''market_id'', ''runner_id''] r"
  by (auto simp: runner_metadata_record_def row_key_def split: if_splits)

lemma create_reference_tables_Inr:
  assumes "create_reference_tables P df_list = Inr (market_ref, runner_ref)"
  shows "\<exists>mm rm.
           list_all2 (\<lambda>b m. market_metadata_record P (get b ''id'') (get b ''marketDefinition'') = Inr m)
             (definition_blocks df_list) mm
         \<and> list_all2 (\<lambda>be r. runner_metadata_record (get (fst be) ''id'') (snd be) = Inr r)
             (runner_entries df_list) rm
         \<and> drop_duplicates [''market_id''] mm = Inr market_ref
         \<and> drop_duplicates [''market_id'', ''runner_id''] rm = Inr runner_ref"
proof -
  have nil: "drop_duplicates cols ([] :: 'a frame) = Inr []" for cols
    by (simp add: drop_duplicates_def rows_hashable_def)
  from assms obtain md where c: "collect_metadata P df_list = Inr md"
    by (auto simp: create_reference_tables_def ebind_eq_Inr_iff)
  with assms have m: "drop_duplicates [''market_id''] (fst md) = Inr market_ref"
    by (cases "fst md = []")
       (auto simp: create_reference_tables_def ebind_eq_Inr_iff nil split: if_splits)
  from assms c have r: "drop_duplicates [''market_id'', ''runner_id''] (snd md) = Inr runner_ref"
    by (cases "snd md = []")
       (auto simp: create_reference_tables_def ebind_eq_Inr_iff nil split: if_splits)
  from collect_metadata_blocks [OF c] obtain outs where
    l: "list_all2 (\<lambda>b out. reference_market P b = Inr out) (blocks_of df_list) outs"
    and md: "md = concat2 outs" by blast
  from l have l': "list_all2 (\<lambda>b out.
       (\<not> definition_bearing b \<longrightarrow> fst out = [] \<and> snd out = [])
       \<and> (definition_bearing b \<longrightarrow>
            (\<exists>m. market_metadata_record P (get b ''id'') (get b ''marketDefinition'') = Inr m
                 \<and> fst out = [m])
            \<and> list_all2 (\<lambda>e r. runner_metadata_record (get b ''id'') e = Inr r)
                 (runner_entries_of b) (snd out)))
       (blocks_of df_list) outs"
    by (rule list_all2_mono) (rule reference_market_Inr)
  from l' have "list_all2 (\<lambda>b out. (\<not> definition_bearing b \<longrightarrow> fst out = [])
       \<and> (definition_bearing b \<longrightarrow>
            (\<exists>m. market_metadata_record P (get b ''id'') (get b ''marketDefinition'') = Inr m
                 \<and> fst out = [m]))) (blocks_of df_list) outs"
    by (rule list_all2_mono) simp
  from list_all2_filter_single [OF this]
  have a: "list_all2 (\<lambda>b m. market_metadata_record P (get b ''id'') (get b ''marketDefinition'') = Inr m)
             (definition_blocks df_list) (fst md)"
    by (simp add: definition_blocks_def md concat2_def)
  from l' have "list_all2 (\<lambda>b out. (\<not> definition_bearing b \<longrightarrow> snd out = [])
       \<and> (definition_bearing b \<longrightarrow>
            list_all2 (\<lambda>e r. runner_metadata_record (get b ''id'') e = Inr r)
                 (runner_entries_of b) (snd out))) (blocks_of df_list) outs"
    by (rule list_all2_mono) simp
  from list_all2_filter_many [OF this]
  have b: "list_all2 (\<lambda>be r. runner_metadata_record (get (fst be) ''id'') (snd be) = Inr r)
             (runner_entries df_list) (snd md)"
    by (simp add: runner_entries_def definition_blocks_def md concat2_def)
  from a b m r show ?thesis by blast
qed

section \<open>The reference tables keep the first occurrence of a key\<close>

text \<open>
  Claim C1. Take the definition-bearing blocks of the input in traversal order (files,
  then records, then the blocks of a record). The market reference table has no two
  rows with the same \<open>market_id\<close>; its keys are exactly the ids of these blocks; and
  each of its rows is, whole, the record \<^verbatim>\<open>create_reference_tables\<close> extracts from the
  first of these blocks that has the row's key: nothing of a later block with the key
  is merged in. The same holds for the runner reference table, the key
  \<open>(market_id, runner_id)\<close> and the runner entries of these blocks in traversal order.
\<close>

theorem reference_tables_first_wins:
  assumes "create_reference_tables P df_list = Inr (market_ref, runner_ref)"
  shows "distinct (map (row_key [''market_id'']) market_ref)
       \<and> row_key [''market_id''] ` set market_ref
           = (\<lambda>b. [key_of (Val (get b ''id''))]) ` set (definition_blocks df_list)
       \<and> (\<forall>r\<in>set market_ref.
             \<exists>b. find (\<lambda>b. [key_of (Val (get b ''id''))] = row_key [''market_id''] r)
                    (definition_blocks df_list) = Some b
                \<and> market_metadata_record P (get b ''id'') (get b ''marketDefinition'') = Inr r)
       \<and> distinct (map (row_key [''market_id'', ''runner_id'']) runner_ref)
       \<and> row_key [''market_id'', ''runner_id''] ` set runner_ref
           = (\<lambda>be. [key_of (Val (get (fst be) ''id'')), key_of (Val (get (snd be) ''id''))])
               ` set (runner_entries df_list)
       \<and> (\<forall>r\<in>set runner_ref.
             \<exists>be. find (\<lambda>be. [key_of (Val (get (fst be) ''id'')), key_of (Val (get (snd be) ''id''))]
                                = row_key [''market_id'', ''runner_id''] r)
                     (runner_entries df_list) = Some be
                 \<and> runner_metadata_record (get (fst be) ''id'') (snd be) = Inr r)"
proof -
  from create_reference_tables_Inr [OF assms] obtain mm rm where
    a: "list_all2 (\<lambda>b m. market_metadata_record P (get b ''id'') (get b ''marketDefinition'') = Inr m)
             (definition_blocks df_list) mm" and
    b: "list_all2 (\<lambda>be r. runner_metadata_record (get (fst be) ''id'') (snd be) = Inr r)
             (runner_entries df_list) rm" and
    m: "drop_duplicates [''market_id''] mm = Inr market_ref" and
    r: "drop_duplicates [''market_id'', ''runner_id''] rm = Inr runner_ref"
    by blast
  have 1: "distinct (map (row_key [''market_id'']) market_ref)"
    by (rule drop_duplicates_distinct [OF m])
  have 2: "row_key [''market_id''] ` set market_ref
           = (\<lambda>b. [key_of (Val (get b ''id''))]) ` set (definition_blocks df_list)"
    using list_all2_keys [OF a market_metadata_record_key] drop_duplicates_keys [OF m]
    by simp
  have 3: "\<exists>b. find (\<lambda>b. [key_of (Val (get b ''id''))] = row_key [''market_id''] x)
                    (definition_blocks df_list) = Some b
                \<and> market_metadata_record P (get b ''id'') (get b ''marketDefinition'') = Inr x"
    if "x \<in> set market_ref" for x
    using list_all2_find [OF a market_metadata_record_key drop_duplicates_first [OF m that]] .
  have 4: "distinct (map (row_key [''market_id'', ''runner_id'']) runner_ref)"
    by (rule drop_duplicates_distinct [OF r])
  have 5: "row_key [''market_id'', ''runner_id''] ` set runner_ref
           = (\<lambda>be. [key_of (Val (get (fst be) ''id'')), key_of (Val (get (snd be) ''id''))])
               ` set (runner_entries df_list)"
    using list_all2_keys [OF b runner_metadata_record_key] drop_duplicates_keys [OF r]
    by simp
  have 6: "\<exists>be. find (\<lambda>be. [key_of (Val (get (fst be) ''id'')), key_of (Val (get (snd be) ''id''))]
                                = row_key [''market_id'', ''runner_id''] x)
                     (runner_entries df_list) = Some be
                 \<and> runner_metadata_record (get (fst be) ''id'') (snd be) = Inr x"
    if "x \<in> set runner_ref" for x
    using list_all2_find [OF b runner_metadata_record_key drop_duplicates_first [OF r that]] .
  from 1 2 3 4 5 6 show ?thesis by blast
qed

text \<open>
  Three files. Market 1.23 is defined in two files and market 2.5 in two blocks of one
  record: the first occurrence wins each time, and its missing venue stays missing.
  Market 7.77, defined in the second record of the third file, has its row. Runner 10
  of market 1.23 keeps the name of its first entry.
\<close>

theorem reference_tables_first_wins_witness:
  "create_reference_tables ms_pandas [first_file, second_file, two_block_file]
     = Inr (fst example_refs, snd example_refs)
   \<and> map (\<lambda>b. get b ''id'') (definition_blocks [first_file, second_file, two_block_file])
       = [JStr ''1.23'', JStr ''1.23'', JStr ''2.5'', JStr ''2.5'', JStr ''7.77'']
   \<and> map (\<lambda>b. get (get b ''marketDefinition'') ''name'')
         (definition_blocks [first_file, second_file, two_block_file])
       = [JStr ''First'', JStr ''Second'', JStr ''One'', JStr ''Two'', JStr ''Seven'']
   \<and> map (col ''market_id'') (fst example_refs)
       = [Val (JStr ''1.23''), Val (JStr ''2.5''), Val (JStr ''7.77'')]
   \<and> map (col ''market_name'') (fst example_refs)
       = [Val (JStr ''First''), Val (JStr ''One''), Val (JStr ''Seven'')]
   \<and> map (col ''venue'') (fst example_refs) = [Val JNull, Val JNull, Val JNull]
   \<and> map (\<lambda>be. get (snd be) ''name'') (runner_entries [first_file, second_file, two_block_file])
       = [JStr ''A'', JStr ''B'', JStr ''C'', JStr ''D'']
   \<and> map (col ''runner_name'') (snd example_refs)
       = [Val (JStr ''A''), Val (JStr ''C''), Val (JStr ''D'')]
   \<and> distinct (map (row_key [''market_id'']) (fst example_refs))
   \<and> distinct (map (row_key [''market_id'', ''runner_id'']) (snd example_refs))"
proof -
  have c: "create_reference_tables ms_pandas [first_file, second_file, two_block_file]
     = Inr (fst example_refs, snd example_refs)"
    by code_simp
  have i: "map (\<lambda>b. get b ''id'') (definition_blocks [first_file, second_file, two_block_file])
       = [JStr ''1.23'', JStr ''1.23'', JStr ''2.5'', JStr ''2.5'', JStr ''7.77'']"
    by code_simp
  have n: "map (\<lambda>b. get (get b ''marketDefinition'') ''name'')
         (definition_blocks [first_file, second_file, two_block_file])
       = [JStr ''First'', JStr ''Second'', JStr ''One'', JStr ''Two'', JStr ''Seven'']"
    by code_simp
  have m: "map (col ''market_id'') (fst example_refs)
       = [Val (JStr ''1.23''), Val (JStr ''2.5''), Val (JStr ''7.77'')]"
    by code_simp
  have k: "map (col ''market_name'') (fst example_refs)
       = [Val (JStr ''First''), Val (JStr ''One''), Val (JStr ''Seven'')]"
    by code_simp
  have v: "map (col ''venue'') (fst example_refs) = [Val JNull, Val JNull, Val JNull]"
    by code_simp
  have e: "map (\<lambda>be. get (snd be) ''name'') (runner_entries [first_file, second_file, two_block_file])
       = [JStr ''A'', JStr ''B'', JStr ''C'', JStr ''D'']"
    by code_simp
  have r: "map (col ''runner_name'') (snd example_refs)
       = [Val (JStr ''A''), Val (JStr ''C''), Val (JStr ''D'')]"
    by code_simp
  from reference_tables_first_wins [OF c]
  have d: "distinct (map (row_key [''market_id'']) (fst example_refs))
      \<and> distinct (map (row_key [''market_id'', ''runner_id'']) (snd example_refs))"
    by blast
  from c i n m k v e r d show ?thesis by blast
qed

section \<open>The monthly deduplication\<close>

text \<open>
  Claim C2. When \<^verbatim>\<open>process_month\<close> returns its summary, let \<open>st\<close> be the accumulators at
  the end of the day loop. The market timeline has no two rows with the same
  \<open>(market_id, status, in_play, version)\<close>; each of its rows is the first row with that
  key in the concatenation of \<open>all_markets\<close>, and every key of the concatenation has its
  row; the table is sorted by \<open>(market_id, publish_time)\<close>. The same holds for the
  runner status table, the key \<open>(market_id, runner_id, status)\<close> and
  \<open>all_runner_static\<close>.
\<close>

theorem monthly_tables_deduplicated:
  assumes "snd (process_days P read_json init_state (days dir)) = Inr st"
    and "outcome (process_month P read_json dir year month) = Inr (Some (tables, summary))"
  shows "distinct (map (row_key [''market_id'', ''status'', ''in_play'', ''version''])
           (market_timeline tables))
       \<and> (\<forall>r\<in>set (market_timeline tables).
             find (\<lambda>x. row_key [''market_id'', ''status'', ''in_play'', ''version''] x
                        = row_key [''market_id'', ''status'', ''in_play'', ''version''] r)
               (concat (all_markets st)) = Some r)
       \<and> row_key [''market_id'', ''status'', ''in_play'', ''version''] ` set (market_timeline tables)
           = row_key [''market_id'', ''status'', ''in_play'', ''version''] ` set (concat (all_markets st))
       \<and> sorted (map (sort_by [''market_id'', ''publish_time'']) (market_timeline tables))
       \<and> distinct (map (row_key [''market_id'', ''runner_id'', ''status'']) (runner_status tables))
       \<and> (\<forall>r\<in>set (runner_status tables).
             find (\<lambda>x. row_key [''market_id'', ''runner_id'', ''status''] x
                        = row_key [''market_id'', ''runner_id'', ''status''] r)
               (concat (all_runner_static st)) = Some r)
       \<and> row_key [''market_id'', ''runner_id'', ''status''] ` set (runner_status tables)
           = row_key [''market_id'', ''runner_id'', ''status''] ` set (concat (all_runner_static st))
       \<and> sorted (map (sort_by [''market_id'', ''publish_time'']) (runner_status tables))"
proof -
  from process_month_outcome(2) [OF assms(2)] assms(1)
  have f: "finish_month P dir year month
             (fst (process_days P read_json init_state (days dir))) st
           = Inr (Some (tables, summary))"
    by simp
  note m = finish_month_Some(2) [OF f]
  note r = finish_month_Some(3) [OF f]
  show ?thesis
    using dedup_sorted_props [OF m] dedup_sorted_props [OF r] by blast
qed

text \<open>
  In the example month runner 10 of market 1.23 is defined twice with the same status:
  the row of the first definition (name A) is kept.
\<close>

theorem monthly_tables_deduplicated_witness:
  "snd (process_days ms_pandas example_read_json init_state (days example_dir)) = Inr example_state
   \<and> outcome (process_month ms_pandas example_read_json example_dir 2024 ''Dec'')
       = Inr (Some (example_tables, example_summary))
   \<and> map (col ''runner_name'') (concat (all_runner_static example_state))
       = [Val (JStr ''A''), Val (JStr ''B''), Val (JStr ''C'')]
   \<and> map (col ''runner_name'') (runner_status example_tables) = [Val (JStr ''A''), Val (JStr ''C'')]
   \<and> length (concat (all_markets example_state)) = 2
   \<and> length (market_timeline example_tables) = 1
   \<and> distinct (map (row_key [''market_id'', ''runner_id'', ''status'']) (runner_status example_tables))
   \<and> sorted (map (sort_by [''market_id'', ''publish_time'']) (runner_status example_tables))"
proof -
  have s: "snd (process_days ms_pandas example_read_json init_state (days example_dir))
             = Inr example_state"
    by code_simp
  have t: "outcome (process_month ms_pandas example_read_json example_dir 2024 ''Dec'')
             = Inr (Some (example_tables, example_summary))"
    by code_simp
  have a: "map (col ''runner_name'') (concat (all_runner_static example_state))
             = [Val (JStr ''A''), Val (JStr ''B''), Val (JStr ''C'')]"
    by code_simp
  have b: "map (col ''runner_name'') (runner_status example_tables)
             = [Val (JStr ''A''), Val (JStr ''C'')]"
    by code_simp
  have c: "length (concat (all_markets example_state)) = 2"
    by code_simp
  have d: "length (market_timeline example_tables) = 1"
    by code_simp
  from monthly_tables_deduplicated [OF s t] s t a b c d show ?thesis by blast
qed

section \<open>The daily price tables\<close>

text \<open>
  Claim C3. Every daily table \<^verbatim>\<open>process_month\<close> writes belongs to a day of the month
  and holds exactly the price-change rows collected from the files of that day (the
  same rows with the same multiplicities as their concatenation in file order). It is
  sorted ascending by \<open>(market_id, publish_time)\<close>, and the sort is stable: the rows of
  any one \<open>(market_id, publish_time)\<close> stand in the order they have in the
  concatenation.
\<close>

theorem daily_prices_sorted_stable:
  assumes "(day, daily_prices) \<in> set (written_daily (process_month P read_json dir year month))"
  shows "\<exists>files. (day, files) \<in> set (days dir)
          \<and> (let collected = concat (concat (map (file_changes P read_json) files))
             in mset daily_prices = mset collected
              \<and> sorted (map (sort_by [''market_id'', ''publish_time'']) daily_prices)
              \<and> (\<forall>k. filter (\<lambda>r. row_key [''market_id'', ''publish_time''] r = k) daily_prices
                      = filter (\<lambda>r. row_key [''market_id'', ''publish_time''] r = k) collected))"
proof -
  from assms have "(day, daily_prices) \<in> set (fst (process_days P read_json init_state (days dir)))"
    by (cases "month_exists dir") (simp_all add: process_month_def Let_def)
  from process_days_written [OF this] obtain files where
    d: "(day, files) \<in> set (days dir)" and
    f: "flush_day (concat (map (file_changes P read_json) files)) = Inr (Some daily_prices)"
    by blast
  from f have s: "sort_values [''market_id'', ''publish_time'']
        (concat (concat (map (file_changes P read_json) files))) = Inr daily_prices"
    by (simp add: flush_day_Some)
  show ?thesis
    using d sort_values_mset [OF s] sort_values_sorted [OF s] sort_values_stable_key [OF s]
    by (auto simp: Let_def)
qed

text \<open>
  Day 1 of the example month: the rows of market 1.23 at the same publish time (runners
  10 and 11) keep their order, and the row without market id and time comes last.
\<close>

theorem daily_prices_sorted_stable_witness:
  "(''1'', example_daily)
     \<in> set (written_daily (process_month ms_pandas example_read_json example_dir 2024 ''Dec''))
   \<and> map (col ''runner_id'')
        (concat (concat (map (file_changes ms_pandas example_read_json)
           [''a.bz2'', ''unreadable.bz2'', ''c.bz2''])))
       = [Val (JNum 10), Val (JNum 11), Val (JNum 7), Val (JNum 8), Val (JNum 10)]
   \<and> map (col ''runner_id'') example_daily
       = [Val (JNum 7), Val (JNum 10), Val (JNum 10), Val (JNum 11), Val (JNum 8)]
   \<and> map (col ''market_id'') example_daily
       = [Val (JStr ''1.100''), Val (JStr ''1.23''), Val (JStr ''1.23''), Val (JStr ''1.23''), Val JNull]
   \<and> map (col ''publish_time'') example_daily
       = [Time 1700000003000, Time 1700000001000, Time 1700000002000, Time 1700000002000, Val JNull]
   \<and> sorted (map (sort_by [''market_id'', ''publish_time'']) example_daily)
   \<and> mset example_daily
       = mset (concat (concat (map (file_changes ms_pandas example_read_json)
           [''a.bz2'', ''unreadable.bz2'', ''c.bz2''])))"
proof -
  have w: "(''1'', example_daily)
     \<in> set (written_daily (process_month ms_pandas example_read_json example_dir 2024 ''Dec''))"
    by code_simp
  have i: "map (col ''runner_id'')
        (concat (concat (map (file_changes ms_pandas example_read_json)
           [''a.bz2'', ''unreadable.bz2'', ''c.bz2''])))
       = [Val (JNum 10), Val (JNum 11), Val (JNum 7), Val (JNum 8), Val (JNum 10)]"
    by code_simp
  have r: "map (col ''runner_id'') example_daily
       = [Val (JNum 7), Val (JNum 10), Val (JNum 10), Val (JNum 11), Val (JNum 8)]"
    by code_simp
  have m: "map (col ''market_id'') example_daily
       = [Val (JStr ''1.100''), Val (JStr ''1.23''), Val (JStr ''1.23''), Val (JStr ''1.23''), Val JNull]"
    by code_simp
  have p: "map (col ''publish_time'') example_daily
       = [Time 1700000003000, Time 1700000001000, Time 1700000002000, Time 1700000002000, Val JNull]"
    by code_simp
  from daily_prices_sorted_stable [OF w]
  have "sorted (map (sort_by [''market_id'', ''publish_time'']) example_daily)
      \<and> mset example_daily
       = mset (concat (concat (map (file_changes ms_pandas example_read_json)
           [''a.bz2'', ''unreadable.bz2'', ''c.bz2''])))"
    by (auto simp: Let_def example_dir_def)
  with w i r m p show ?thesis by blast
qed

section \<open>Rows carry the id of their block and the time of their record\<close>

text \<open>
  Claim C4. The output of \<^verbatim>\<open>parse_betfair_stream\<close> splits, record by record and block
  by block, into the rows each block emits: a record without blocks has no group, and
  a record with blocks has one publish time, computed once from its \<open>pt\<close> cell, and one
  group per block, which is what \<open>parse_market\<close> returns for that block at that time.
  Every row of the group of a block carries the \<open>id\<close> of that block (\<^verbatim>\<open>None\<close> when the
  block has none) and the publish time of that record.
\<close>

theorem rows_stamped_by_their_block:
  assumes "parse_betfair_stream P df = Inr out"
  shows "\<exists>tss. out = concat3 (map concat3 tss)
          \<and> list_all2
               (\<lambda>row ts. (mc_data df row = [] \<and> ts = [])
                  \<or> (\<exists>t. publish_time_of P df row = Inr t
                        \<and> list_all2
                             (\<lambda>market rows3.
                                parse_market P t market = Inr rows3
                                \<and> (\<forall>r\<in>set (fst rows3) \<union> set (fst (snd rows3)) \<union> set (snd (snd rows3)).
                                      col ''market_id'' r = Val (get market ''id'')
                                      \<and> col ''publish_time'' r = t))
                             (mc_data df row) ts))
               (rows df) tss"
proof (cases "df_empty df")
  case True
  with assms have o: "out = ([], [], [])" by (simp add: parse_betfair_stream_def)
  have a: "out = concat3 (map concat3 (map (\<lambda>row. []) (rows df)))"
    unfolding o by (simp only: concat3_map_Nil)
  have "out = concat3 (map concat3 (map (\<lambda>row. []) (rows df)))
      \<and> list_all2
               (\<lambda>row ts. (mc_data df row = [] \<and> ts = [])
                  \<or> (\<exists>t. publish_time_of P df row = Inr t
                        \<and> list_all2
                             (\<lambda>market rows3.
                                parse_market P t market = Inr rows3
                                \<and> (\<forall>r\<in>set (fst rows3) \<union> set (fst (snd rows3)) \<union> set (snd (snd rows3)).
                                      col ''market_id'' r = Val (get market ''id'')
                                      \<and> col ''publish_time'' r = t))
                             (mc_data df row) ts))
               (rows df) (map (\<lambda>row. []) (rows df))"
    by (rule conjI [OF a list_all2_map_Nil_when]) (rule mc_data_empty_frame [OF True])
  then show ?thesis by (rule exI)
next
  case False
  with assms obtain t3s where e: "emap (parse_row P df) (rows df) = Inr t3s"
    and o: "out = concat3 t3s"
    by (auto simp: parse_betfair_stream_def ebind_eq_Inr_iff)
  let ?Q = "\<lambda>row ts. (mc_data df row = [] \<and> ts = [])
      \<or> (\<exists>t. publish_time_of P df row = Inr t
            \<and> list_all2
                 (\<lambda>market rows3.
                    parse_market P t market = Inr rows3
                    \<and> (\<forall>r\<in>set (fst rows3) \<union> set (fst (snd rows3)) \<union> set (snd (snd rows3)).
                          col ''market_id'' r = Val (get market ''id'') \<and> col ''publish_time'' r = t))
                 (mc_data df row) ts)"
  have step: "\<exists>ts. t3 = concat3 ts \<and> ?Q row ts" if p: "parse_row P df row = Inr t3" for row t3
  proof -
    from parse_row_Inr_blocks [OF p] obtain ts where c: "t3 = concat3 ts" and
      d: "(mc_data df row = [] \<and> ts = [])
          \<or> (\<exists>t. publish_time_of P df row = Inr t
                 \<and> emap (parse_market P t) (mc_data df row) = Inr ts)" by blast
    from d have "?Q row ts"
    proof
      assume "mc_data df row = [] \<and> ts = []"
      then show ?thesis by simp
    next
      assume "\<exists>t. publish_time_of P df row = Inr t
                \<and> emap (parse_market P t) (mc_data df row) = Inr ts"
      then obtain t where t: "publish_time_of P df row = Inr t" and
        m: "emap (parse_market P t) (mc_data df row) = Inr ts" by blast
      from m have "list_all2 (\<lambda>market rows3. parse_market P t market = Inr rows3) (mc_data df row) ts"
        by (simp add: emap_Inr_list_all2)
      then have "list_all2
                 (\<lambda>market rows3.
                    parse_market P t market = Inr rows3
                    \<and> (\<forall>r\<in>set (fst rows3) \<union> set (fst (snd rows3)) \<union> set (snd (snd rows3)).
                          col ''market_id'' r = Val (get market ''id'') \<and> col ''publish_time'' r = t))
                 (mc_data df row) ts"
        by (rule list_all2_mono) (simp add: parse_market_stamp)
      with t show ?thesis by blast
    qed
    with c show ?thesis by blast
  qed
  from e have "list_all2 (\<lambda>row t3. parse_row P df row = Inr t3) (rows df) t3s"
    by (simp add: emap_Inr_list_all2)
  then have "list_all2 (\<lambda>row t3. \<exists>ts. t3 = concat3 ts \<and> ?Q row ts) (rows df) t3s"
    by (rule list_all2_mono) (rule step)
  from list_all2_choice [OF this] obtain tss where
    "t3s = map concat3 tss" and "list_all2 ?Q (rows df) tss" by blast
  with o show ?thesis by blast
qed

text \<open>
  The example scenario: two records of one block each, with their two publish times;
  the definition rows carry the time of the first record, the price-change row that of
  the second.
\<close>

theorem rows_stamped_by_their_block_witness:
  "parse_betfair_stream ms_pandas scenario_file = Inr scenario_rows
   \<and> (\<exists>tss. scenario_rows = concat3 (map concat3 tss) \<and> length tss = 2)
   \<and> map (mc_data scenario_file) (rows scenario_file)
       = [[JObj [(''id'', JStr ''1.23''),
               (''marketDefinition'',
                  JObj [(''status'', JStr ''OPEN''), (''inPlay'', JBool False),
                        (''numberOfActiveRunners'', JNum 2), (''totalMatched'', JNum 100.5),
                        (''version'', JNum 1),
                        (''runners'',
                           JArr [JObj [(''id'', JStr ''10''), (''name'', JStr ''A''),
                                       (''status'', JStr ''ACTIVE'')]])])]],
          [JObj [(''id'', JStr ''1.23''),
               (''rc'', JArr [JObj [(''id'', JStr ''10''), (''ltp'', JNum 2.5), (''tv'', JNum 50)]])]]]
   \<and> map (publish_time_of ms_pandas scenario_file) (rows scenario_file)
       = [Inr (Time 1700000000000), Inr (Time 1700000001000)]
   \<and> map (col ''market_id'') (fst scenario_rows) = [Val (JStr ''1.23'')]
   \<and> map (col ''publish_time'') (fst scenario_rows) = [Time 1700000000000]
   \<and> map (col ''publish_time'') (fst (snd scenario_rows)) = [Time 1700000000000]
   \<and> map (col ''market_id'') (snd (snd scenario_rows)) = [Val (JStr ''1.23'')]
   \<and> map (col ''publish_time'') (snd (snd scenario_rows)) = [Time 1700000001000]"
proof -
  have p: "parse_betfair_stream ms_pandas scenario_file = Inr scenario_rows"
    by code_simp
  have n: "length (rows scenario_file) = 2"
    by (simp add: scenario_file_def)
  from rows_stamped_by_their_block [OF p] obtain tss where
    t: "scenario_rows = concat3 (map concat3 tss)" and
    l: "list_all2
         (\<lambda>row ts. (mc_data scenario_file row = [] \<and> ts = [])
            \<or> (\<exists>t. publish_time_of ms_pandas scenario_file row = Inr t
                  \<and> list_all2
                       (\<lambda>market rows3.
                          parse_market ms_pandas t market = Inr rows3
                          \<and> (\<forall>r\<in>set (fst rows3) \<union> set (fst (snd rows3)) \<union> set (snd (snd rows3)).
                                col ''market_id'' r = Val (get market ''id'')
                                \<and> col ''publish_time'' r = t))
                       (mc_data scenario_file row) ts))
         (rows scenario_file) tss"
    by blast
  from list_all2_lengthD [OF l] n have "length tss = 2" by simp
  with t have e: "\<exists>tss. scenario_rows = concat3 (map concat3 tss) \<and> length tss = 2"
    by blast
  have g: "map (mc_data scenario_file) (rows scenario_file)
       = [[JObj [(''id'', JStr ''1.23''),
               (''marketDefinition'',
                  JObj [(''status'', JStr ''OPEN''), (''inPlay'', JBool False),
                        (''numberOfActiveRunners'', JNum 2), (''totalMatched'', JNum 100.5),
                        (''version'', JNum 1),
                        (''runners'',
                           JArr [JObj [(''id'', JStr ''10''), (''name'', JStr ''A''),
                                       (''status'', JStr ''ACTIVE'')]])])]],
          [JObj [(''id'', JStr ''1.23''),
               (''rc'', JArr [JObj [(''id'', JStr ''10''), (''ltp'', JNum 2.5), (''tv'', JNum 50)]])]]]"
    by code_simp
  have h: "map (publish_time_of ms_pandas scenario_file) (rows scenario_file)
       = [Inr (Time 1700000000000), Inr (Time 1700000001000)]"
    by code_simp
  have a: "map (col ''market_id'') (fst scenario_rows) = [Val (JStr ''1.23'')]"
    by code_simp
  have b: "map (col ''publish_time'') (fst scenario_rows) = [Time 1700000000000]"
    by code_simp
  have c: "map (col ''publish_time'') (fst (snd scenario_rows)) = [Time 1700000000000]"
    by code_simp
  have d: "map (col ''market_id'') (snd (snd scenario_rows)) = [Val (JStr ''1.23'')]"
    by code_simp
  have f: "map (col ''publish_time'') (snd (snd scenario_rows)) = [Time 1700000001000]"
    by code_simp
  from p e g h a b c d f show ?thesis by blast
qed

section \<open>The block field becomes a list; empty records and bare blocks are silent\<close>

text \<open>
  Claim C5. The block list of a record is empty when the frame has no \<open>mc\<close> column or
  the cell is missing, is the one-element list of the object when the cell is a single
  object, and is the list itself when the cell is a list of objects. A record with an
  empty block list emits no row and raises nothing: its turn of the loop returns three
  empty lists, and the stream parses as it does without the record. A block with neither
  \<open>marketDefinition\<close> nor \<open>rc\<close> emits no row and raises nothing.
\<close>

theorem blocks_coerced_and_empty_ones_silent:
  "(''mc'' \<notin> set (columns df) \<longrightarrow> mc_data df row = [])
   \<and> (mc row = JNull \<longrightarrow> mc_data df row = [])
   \<and> (''mc'' \<in> set (columns df) \<and> mc row = JObj kvs \<longrightarrow> mc_data df row = [JObj kvs])
   \<and> (''mc'' \<in> set (columns df) \<and> mc row = JArr bs \<and> list_all is_dict bs \<longrightarrow> mc_data df row = bs)
   \<and> (mc_data df row = [] \<longrightarrow>
        parse_row P df row = Inr ([], [], [])
        \<and> parse_betfair_stream P (df\<lparr>rows := xs @ row # ys\<rparr>)
            = parse_betfair_stream P (df\<lparr>rows := xs @ ys\<rparr>))
   \<and> (''marketDefinition'' \<notin> fst ` set kvs \<and> ''rc'' \<notin> fst ` set kvs \<longrightarrow>
        parse_market P t (JObj kvs) = Inr ([], [], []))"
proof (intro conjI impI)
  show "mc_data df row = []" if "''mc'' \<notin> set (columns df)"
    using that by (simp add: mc_data_def)
  show "mc_data df row = []" if "mc row = JNull"
    using that by (simp add: mc_data_def)
  show "mc_data df row = [JObj kvs]" if "''mc'' \<in> set (columns df) \<and> mc row = JObj kvs"
    using that by (simp add: mc_data_def)
  show "mc_data df row = bs" if "''mc'' \<in> set (columns df) \<and> mc row = JArr bs \<and> list_all is_dict bs"
    using that not_lone_null_dicts [of bs] by (simp add: mc_data_def)
  show "parse_row P df row = Inr ([], [], [])" if "mc_data df row = []"
    using that by (rule parse_row_no_blocks)
  show "parse_betfair_stream P (df\<lparr>rows := xs @ row # ys\<rparr>)
      = parse_betfair_stream P (df\<lparr>rows := xs @ ys\<rparr>)" if "mc_data df row = []"
    using that by (rule parse_stream_skip)
  show "parse_market P t (JObj kvs) = Inr ([], [], [])"
    if "''marketDefinition'' \<notin> fst ` set kvs \<and> ''rc'' \<notin> fst ` set kvs"
    using that by (simp add: parse_market_bare)
qed

text \<open>
  Each case on a concrete record: no \<open>mc\<close> column, a missing cell, a single object, a
  list of two objects, a record with an empty list placed between the two records of
  the example scenario, and a block that has only an id.
\<close>

theorem blocks_coerced_and_empty_ones_silent_witness:
  "mc_data \<lparr>columns = [''pt''], rows = []\<rparr> \<lparr>mc = JObj [(''id'', JStr ''1.23'')], pt = None\<rparr> = []
   \<and> mc_data scenario_file \<lparr>mc = JNull, pt = Some 5\<rparr> = []
   \<and> mc_data scenario_file \<lparr>mc = JObj [(''id'', JStr ''1.23'')], pt = None\<rparr>
       = [JObj [(''id'', JStr ''1.23'')]]
   \<and> mc_data scenario_file \<lparr>mc = JArr [JObj [(''id'', JStr ''1.23'')], JObj []], pt = None\<rparr>
       = [JObj [(''id'', JStr ''1.23'')], JObj []]
   \<and> parse_row ms_pandas scenario_file \<lparr>mc = JArr [], pt = Some 5\<rparr> = Inr ([], [], [])
   \<and> parse_betfair_stream ms_pandas
         (scenario_file\<lparr>rows := [hd (rows scenario_file)] @ \<lparr>mc = JArr [], pt = Some 5\<rparr> # tl (rows scenario_file)\<rparr>)
       = parse_betfair_stream ms_pandas
         (scenario_file\<lparr>rows := [hd (rows scenario_file)] @ tl (rows scenario_file)\<rparr>)
   \<and> parse_market ms_pandas (Time 7) (JObj [(''id'', JStr ''1.23'')]) = Inr ([], [], [])"
proof -
  have c: "''mc'' \<in> set (columns scenario_file)"
    by (simp add: scenario_file_def)
  have e: "mc_data scenario_file \<lparr>mc = JArr [], pt = Some 5\<rparr> = []"
    by (simp add: mc_data_def)
  have 1: "mc_data \<lparr>columns = [''pt''], rows = []\<rparr> \<lparr>mc = JObj [(''id'', JStr ''1.23'')], pt = None\<rparr> = []"
    using blocks_coerced_and_empty_ones_silent
      [of "\<lparr>columns = [''pt''], rows = []\<rparr>" "\<lparr>mc = JObj [(''id'', JStr ''1.23'')], pt = None\<rparr>",
       THEN conjunct1]
    by simp
  have 2: "mc_data scenario_file \<lparr>mc = JNull, pt = Some 5\<rparr> = []"
    using blocks_coerced_and_empty_ones_silent
      [of scenario_file "\<lparr>mc = JNull, pt = Some 5\<rparr>", THEN conjunct2, THEN conjunct1]
    by simp
  have 3: "mc_data scenario_file \<lparr>mc = JObj [(''id'', JStr ''1.23'')], pt = None\<rparr>
       = [JObj [(''id'', JStr ''1.23'')]]"
    using c blocks_coerced_and_empty_ones_silent
      [of scenario_file "\<lparr>mc = JObj [(''id'', JStr ''1.23'')], pt = None\<rparr>" "[(''id'', JStr ''1.23'')]",
       THEN conjunct2, THEN conjunct2, THEN conjunct1]
    by simp
  have 4: "mc_data scenario_file \<lparr>mc = JArr [JObj [(''id'', JStr ''1.23'')], JObj []], pt = None\<rparr>
       = [JObj [(''id'', JStr ''1.23'')], JObj []]"
    using c blocks_coerced_and_empty_ones_silent
      [of scenario_file "\<lparr>mc = JArr [JObj [(''id'', JStr ''1.23'')], JObj []], pt = None\<rparr>"
          _ "[JObj [(''id'', JStr ''1.23'')], JObj []]",
       THEN conjunct2, THEN conjunct2, THEN conjunct2, THEN conjunct1]
    by simp
  have 5: "parse_row ms_pandas scenario_file \<lparr>mc = JArr [], pt = Some 5\<rparr> = Inr ([], [], [])
   \<and> parse_betfair_stream ms_pandas
         (scenario_file\<lparr>rows := [hd (rows scenario_file)] @ \<lparr>mc = JArr [], pt = Some 5\<rparr> # tl (rows scenario_file)\<rparr>)
       = parse_betfair_stream ms_pandas
         (scenario_file\<lparr>rows := [hd (rows scenario_file)] @ tl (rows scenario_file)\<rparr>)"
    using e blocks_coerced_and_empty_ones_silent
      [of scenario_file "\<lparr>mc = JArr [], pt = Some 5\<rparr>" _ _ ms_pandas
          "[hd (rows scenario_file)]" "tl (rows scenario_file)",
       THEN conjunct2, THEN conjunct2, THEN conjunct2, THEN conjunct2, THEN conjunct1]
    by blast
  have 6: "parse_market ms_pandas (Time 7) (JObj [(''id'', JStr ''1.23'')]) = Inr ([], [], [])"
    using blocks_coerced_and_empty_ones_silent
      [of _ _ "[(''id'', JStr ''1.23'')]" _ ms_pandas _ _ "Time 7",
       THEN conjunct2, THEN conjunct2, THEN conjunct2, THEN conjunct2, THEN conjunct2]
    by simp
  from 1 2 3 4 5 6 show ?thesis by blast
qed

section \<open>A block without an id still emits its rows\<close>

text \<open>
  Claim C6. A block that has no \<open>id\<close> key behaves as the same block with an id does,
  except that the \<open>market_id\<close> of every row is null: it raises when the other raises,
  and otherwise emits the same rows with the id replaced by null. In particular a
  definition gives its market row and a change list one row per entry.
\<close>

theorem block_without_id_emits_null_id_rows:
  assumes "''id'' \<notin> fst ` set kvs"
  shows "parse_market P t (JObj kvs)
           = ebind (parse_market P t (JObj ((''id'', v) # kvs))) (\<lambda>out. Inr (null_ids out))
       \<and> (\<forall>out. parse_market P t (JObj kvs) = Inr out \<longrightarrow>
             (\<forall>r\<in>set (fst out) \<union> set (fst (snd out)) \<union> set (snd (snd out)).
                col ''market_id'' r = Val JNull)
             \<and> (''marketDefinition'' \<in> fst ` set kvs \<longrightarrow> length (fst out) = 1)
             \<and> (\<forall>rcs. map_of kvs ''rc'' = Some (JArr rcs) \<longrightarrow> length (snd (snd out)) = length rcs))"
proof (intro conjI allI impI)
  show "parse_market P t (JObj kvs)
           = ebind (parse_market P t (JObj ((''id'', v) # kvs))) (\<lambda>out. Inr (null_ids out))"
    using assms by (rule parse_market_null_id)
next
  fix out
  assume p: "parse_market P t (JObj kvs) = Inr out"
  from assms have "map_of kvs ''id'' = None" by (simp add: map_of_eq_None_iff)
  then have "get (JObj kvs) ''id'' = JNull" by simp
  with parse_market_stamp [OF p]
  show "\<forall>r\<in>set (fst out) \<union> set (fst (snd out)) \<union> set (snd (snd out)). col ''market_id'' r = Val JNull"
    by simp
  show "length (fst out) = 1" if "''marketDefinition'' \<in> fst ` set kvs"
    using parse_market_counts [OF p] that by blast
  show "length (snd (snd out)) = length rcs" if "map_of kvs ''rc'' = Some (JArr rcs)" for rcs
    using parse_market_counts [OF p] that by blast
qed

text \<open>
  A block with a definition (one runner) and two price changes but no id: one market
  row, one runner row and two change rows, all with a null \<open>market_id\<close>.
\<close>

theorem block_without_id_emits_null_id_rows_witness:
  "''id'' \<notin> fst ` set anonymous_block
   \<and> parse_market ms_pandas (Time 7) (JObj anonymous_block)
       = ebind (parse_market ms_pandas (Time 7) (JObj ((''id'', JStr ''1.23'') # anonymous_block)))
           (\<lambda>out. Inr (null_ids out))
   \<and> map (col ''market_id'') (fst (projr (parse_market ms_pandas (Time 7) (JObj anonymous_block))))
       = [Val JNull]
   \<and> map (col ''market_id'') (fst (snd (projr (parse_market ms_pandas (Time 7) (JObj anonymous_block)))))
       = [Val JNull]
   \<and> map (col ''market_id'') (snd (snd (projr (parse_market ms_pandas (Time 7) (JObj anonymous_block)))))
       = [Val JNull, Val JNull]
   \<and> map (col ''market_id'')
        (snd (snd (projr (parse_market ms_pandas (Time 7) (JObj ((''id'', JStr ''1.23'') # anonymous_block))))))
       = [Val (JStr ''1.23''), Val (JStr ''1.23'')]"
proof -
  have h: "''id'' \<notin> fst ` set anonymous_block"
    by (simp add: anonymous_block_def)
  have a: "map (col ''market_id'') (fst (projr (parse_market ms_pandas (Time 7) (JObj anonymous_block))))
       = [Val JNull]"
    by code_simp
  have b: "map (col ''market_id'') (fst (snd (projr (parse_market ms_pandas (Time 7) (JObj anonymous_block)))))
       = [Val JNull]"
    by code_simp
  have c: "map (col ''market_id'') (snd (snd (projr (parse_market ms_pandas (Time 7) (JObj anonymous_block)))))
       = [Val JNull, Val JNull]"
    by code_simp
  have d: "map (col ''market_id'')
        (snd (snd (projr (parse_market ms_pandas (Time 7) (JObj ((''id'', JStr ''1.23'') # anonymous_block))))))
       = [Val (JStr ''1.23''), Val (JStr ''1.23'')]"
    by code_simp
  from block_without_id_emits_null_id_rows [OF h, of ms_pandas "Time 7" "JStr ''1.23''"] h a b c d
  show ?thesis by blast
qed

section \<open>Files that cannot be decoded or parsed\<close>

text \<open>
  Claim C7 says that a file whose decode or parse fails contributes zero rows. That
  holds for a decode failure, and for the three event tables; it fails for the reference
  tables: the raw frame of a file is stored before the parse, so a file whose parse
  raises is still read by \<^verbatim>\<open>create_reference_tables\<close>. In the example month the parse of
  \<open>broken.bz2\<close> raises, and market 1.99 (named Broken), which only that file defines, is
  in the market reference table; without the file the table has one row.
\<close>

theorem failed_parse_feeds_reference_table:
  "example_read_json ''broken.bz2'' = Inr broken_file
   \<and> parse_betfair_stream ms_pandas broken_file = Inl TypeError
   \<and> outcome (process_month ms_pandas example_read_json example_dir 2024 ''Dec'')
       = Inr (Some (example_tables, example_summary))
   \<and> map (col ''market_name'') (market_reference example_tables)
       = [Val (JStr ''First''), Val (JStr ''Broken'')]
   \<and> map (col ''market_name'')
        (market_reference (fst (the (projr (outcome
           (process_month ms_pandas example_read_json example_dir_without_broken 2024 ''Dec''))))))
       = [Val (JStr ''First'')]"
proof -
  have b: "example_read_json ''broken.bz2'' = Inr broken_file"
    by (simp add: example_read_json_def)
  have p: "parse_betfair_stream ms_pandas broken_file = Inl TypeError"
    by code_simp
  have t: "outcome (process_month ms_pandas example_read_json example_dir 2024 ''Dec'')
             = Inr (Some (example_tables, example_summary))"
    by code_simp
  have m: "map (col ''market_name'') (market_reference example_tables)
       = [Val (JStr ''First''), Val (JStr ''Broken'')]"
    by code_simp
  have w: "map (col ''market_name'')
        (market_reference (fst (the (projr (outcome
           (process_month ms_pandas example_read_json example_dir_without_broken 2024 ''Dec''))))))
       = [Val (JStr ''First'')]"
    by code_simp
  from b p t m w show ?thesis by blast
qed

text \<open>
  Claim C7, amended. \<^verbatim>\<open>read_betfair_bz2\<close> never raises: it returns the decoded frame,
  or the empty frame when the decoder raises. In \<^verbatim>\<open>process_month\<close> a file that cannot be
  decoded leaves the accumulators as they are, and a file whose decode or parse fails
  adds no rows to the three event streams. The loop goes on: the accumulators after the
  files of a day, and after the days of a month, are those before them followed by what
  each file adds, in order, whichever files failed.
\<close>

theorem failed_files_add_no_event_rows:
  "(\<forall>e. read_json f = Inl e \<longrightarrow>
        read_betfair_bz2 read_json f = Inr empty_frame \<and> rows empty_frame = []
        \<and> process_file P read_json acc f = acc)
   \<and> (\<forall>df. read_json f = Inr df \<longrightarrow> read_betfair_bz2 read_json f = Inr df)
   \<and> ((\<exists>e. read_json f = Inl e) \<or> (\<exists>df e. read_json f = Inr df \<and> parse_betfair_stream P df = Inl e) \<longrightarrow>
        file_markets P read_json f = [] \<and> file_runner_static P read_json f = []
        \<and> file_changes P read_json f = [])
   \<and> all_markets (fst (process_files P read_json acc files))
       = all_markets (fst acc) @ concat (map (file_markets P read_json) files)
   \<and> all_runner_static (fst (process_files P read_json acc files))
       = all_runner_static (fst acc) @ concat (map (file_runner_static P read_json) files)
   \<and> snd (process_files P read_json acc files)
       = snd acc @ concat (map (file_changes P read_json) files)
   \<and> (\<forall>st. snd (process_days P read_json init_state ds) = Inr st \<longrightarrow>
        all_markets st = concat (map (file_markets P read_json) (concat (map snd ds)))
        \<and> all_runner_static st
            = concat (map (file_runner_static P read_json) (concat (map snd ds))))"
proof (intro conjI allI impI)
  show "read_betfair_bz2 read_json f = Inr empty_frame" if "read_json f = Inl e" for e
    using that by (simp add: read_betfair_bz2_def)
  show "rows empty_frame = []"
    by (simp add: empty_frame_def)
  show "process_file P read_json acc f = acc" if "read_json f = Inl e" for e
    using that by (rule process_file_undecodable)
  show "read_betfair_bz2 read_json f = Inr df" if "read_json f = Inr df" for df
    using that by (simp add: read_betfair_bz2_def)
  show "file_markets P read_json f = []" "file_runner_static P read_json f = []"
    "file_changes P read_json f = []"
    if "(\<exists>e. read_json f = Inl e) \<or> (\<exists>df e. read_json f = Inr df \<and> parse_betfair_stream P df = Inl e)"
    using that by (rule file_contributions_failed)+
  show "all_markets (fst (process_files P read_json acc files))
       = all_markets (fst acc) @ concat (map (file_markets P read_json) files)"
    by (rule process_files_markets)
  show "all_runner_static (fst (process_files P read_json acc files))
       = all_runner_static (fst acc) @ concat (map (file_runner_static P read_json) files)"
    by (rule process_files_runner_static)
  show "snd (process_files P read_json acc files)
       = snd acc @ concat (map (file_changes P read_json) files)"
    by (rule process_files_snd)
  show "all_markets st = concat (map (file_markets P read_json) (concat (map snd ds)))"
    "all_runner_static st = concat (map (file_runner_static P read_json) (concat (map snd ds)))"
    if "snd (process_days P read_json init_state ds) = Inr st" for st
    using process_days_events [OF that] by (simp_all add: init_state_def)
qed

text \<open>The example month: one file cannot be decoded, the parse of another raises.\<close>

theorem failed_files_add_no_event_rows_witness:
  "example_read_json ''unreadable.bz2'' = Inl DecodeError
   \<and> read_betfair_bz2 example_read_json ''unreadable.bz2'' = Inr empty_frame
   \<and> example_read_json ''broken.bz2'' = Inr broken_file
   \<and> parse_betfair_stream ms_pandas broken_file = Inl TypeError
   \<and> file_markets ms_pandas example_read_json ''broken.bz2'' = []
   \<and> file_runner_static ms_pandas example_read_json ''broken.bz2'' = []
   \<and> file_changes ms_pandas example_read_json ''broken.bz2'' = []
   \<and> snd (process_days ms_pandas example_read_json init_state (days example_dir)) = Inr example_state
   \<and> all_markets example_state
       = concat (map (file_markets ms_pandas example_read_json)
           [''a.bz2'', ''unreadable.bz2'', ''c.bz2'', ''b.bz2'', ''broken.bz2''])"
proof -
  have u: "example_read_json ''unreadable.bz2'' = Inl DecodeError"
    by (simp add: example_read_json_def)
  have b: "example_read_json ''broken.bz2'' = Inr broken_file"
    by (simp add: example_read_json_def)
  have p: "parse_betfair_stream ms_pandas broken_file = Inl TypeError"
    by code_simp
  have s: "snd (process_days ms_pandas example_read_json init_state (days example_dir))
             = Inr example_state"
    by code_simp
  have d: "concat (map snd (days example_dir))
             = [''a.bz2'', ''unreadable.bz2'', ''c.bz2'', ''b.bz2'', ''broken.bz2'']"
    by (simp add: example_dir_def)
  note t = failed_files_add_no_event_rows
    [of example_read_json "''unreadable.bz2''" ms_pandas _ _ "days example_dir"]
  note t' = failed_files_add_no_event_rows
    [of example_read_json "''broken.bz2''" ms_pandas _ _ "days example_dir"]
  from t u have 1: "read_betfair_bz2 example_read_json ''unreadable.bz2'' = Inr empty_frame"
    by blast
  from t' b p have 2: "file_markets ms_pandas example_read_json ''broken.bz2'' = []
      \<and> file_runner_static ms_pandas example_read_json ''broken.bz2'' = []
      \<and> file_changes ms_pandas example_read_json ''broken.bz2'' = []"
    by blast
  from t s have "all_markets example_state
       = concat (map (file_markets ms_pandas example_read_json) (concat (map snd (days example_dir))))"
    by blast
  with d have 3: "all_markets example_state
       = concat (map (file_markets ms_pandas example_read_json)
           [''a.bz2'', ''unreadable.bz2'', ''c.bz2'', ''b.bz2'', ''broken.bz2''])"
    by simp
  from u b p s 1 2 3 show ?thesis by blast
qed

section \<open>The result of \<^verbatim>\<open>process_month\<close>\<close>

text \<open>
  Claim C8 says that every call on an existing month directory returns the summary.
  The reference build, the monthly deduplication and the sorts run outside the per-file
  \<^verbatim>\<open>try\<close>, so an exception raised there leaves \<^verbatim>\<open>process_month\<close>. In the month below
  the only file holds a definition block followed by the number 5: the parse raises
  and is caught, the reference build then raises \<^verbatim>\<open>TypeError\<close> on the same record, and no
  summary is returned.
\<close>

theorem process_month_can_raise:
  "month_exists crash_dir
   \<and> outcome (process_month ms_pandas crash_read_json crash_dir 2024 ''Dec'') = Inl TypeError"
proof -
  have e: "month_exists crash_dir"
    by (simp add: crash_dir_def)
  have o: "outcome (process_month ms_pandas crash_read_json crash_dir 2024 ''Dec'') = Inl TypeError"
    by code_simp
  from e o show ?thesis by blast
qed

text \<open>
  Claim C8, amended. When the month directory is absent \<^verbatim>\<open>process_month\<close> returns
  \<^verbatim>\<open>None\<close>, raises nothing and writes nothing. When it exists and no exception leaves
  the function, the result is the summary dict with exactly the keys \<open>year\<close>, \<open>month\<close>,
  \<open>num_markets\<close>, \<open>num_runners\<close> and \<open>num_daily_files\<close>: the arguments, the sizes of
  the two reference tables, and the number of parquet files in the daily folder.
\<close>

theorem process_month_summary_or_skip:
  "(\<not> month_exists dir \<longrightarrow>
      process_month P read_json dir year month = \<lparr>written_daily = [], outcome = Inr None\<rparr>)
   \<and> (month_exists dir \<longrightarrow>
      (\<forall>res. outcome (process_month P read_json dir year month) = Inr res \<longrightarrow>
         (\<exists>tables. res = Some
           (tables,
            [(''year'', JNum (of_int year)),
             (''month'', JStr month),
             (''num_markets'', JNum (of_nat (length (market_reference tables)))),
             (''num_runners'', JNum (of_nat (length (runner_reference tables)))),
             (''num_daily_files'',
                JNum (of_nat (length (remdups (prior_days dir
                    @ map fst (written_daily (process_month P read_json dir year month))))
                  + prior_other dir)))]))))"
  using process_month_absent [of dir P read_json year month]
    process_month_returns [of dir P read_json year month]
  by blast

text \<open>The example month, and the same month with its directory absent.\<close>

theorem process_month_summary_or_skip_witness:
  "month_exists example_dir
   \<and> outcome (process_month ms_pandas example_read_json example_dir 2024 ''Dec'')
       = Inr (Some (example_tables, example_summary))
   \<and> map fst example_summary
       = [''year'', ''month'', ''num_markets'', ''num_runners'', ''num_daily_files'']
   \<and> example_summary
       = [(''year'', JNum 2024), (''month'', JStr ''Dec''), (''num_markets'', JNum 2),
          (''num_runners'', JNum 2), (''num_daily_files'', JNum 1)]
   \<and> \<not> month_exists (example_dir\<lparr>month_exists := False\<rparr>)
   \<and> process_month ms_pandas example_read_json (example_dir\<lparr>month_exists := False\<rparr>) 2024 ''Dec''
       = \<lparr>written_daily = [], outcome = Inr None\<rparr>"
proof -
  have e: "month_exists example_dir"
    by (simp add: example_dir_def)
  have t: "outcome (process_month ms_pandas example_read_json example_dir 2024 ''Dec'')
       = Inr (Some (example_tables, example_summary))"
    by code_simp
  have s: "example_summary
       = [(''year'', JNum 2024), (''month'', JStr ''Dec''), (''num_markets'', JNum 2),
          (''num_runners'', JNum 2), (''num_daily_files'', JNum 1)]"
    by code_simp
  have n: "\<not> month_exists (example_dir\<lparr>month_exists := False\<rparr>)"
    by simp
  from process_month_summary_or_skip
    [of example_dir ms_pandas example_read_json 2024 "''Dec''"] e t
  obtain y m nm nr nd where x: "example_summary
       = [(''year'', y), (''month'', m), (''num_markets'', nm), (''num_runners'', nr),
          (''num_daily_files'', nd)]"
    by auto
  have k: "map fst example_summary
       = [''year'', ''month'', ''num_markets'', ''num_runners'', ''num_daily_files'']"
    by (subst x) simp
  from process_month_summary_or_skip
    [of "example_dir\<lparr>month_exists := False\<rparr>" ms_pandas example_read_json 2024 "''Dec''"] n
  have a: "process_month ms_pandas example_read_json (example_dir\<lparr>month_exists := False\<rparr>) 2024 ''Dec''
       = \<lparr>written_daily = [], outcome = Inr None\<rparr>"
    by blast
  from e t k s n a show ?thesis by blast
qed

section \<open>Falsy timestamps are null\<close>

text \<open>
  Claim C9. When the \<open>removalDate\<close> of a runner entry is absent or falsy (\<^verbatim>\<open>None\<close>,
  \<^verbatim>\<open>False\<close>, zero, an empty string, list or dict), the runner row is the row of the same
  entry without the field: no conversion is attempted and \<open>removal_date\<close> is null. The
  reference builder treats \<open>marketTime\<close> the same way for \<open>market_time\<close>.
\<close>

theorem falsy_timestamps_are_null:
  "(\<not> py_truthy (get (JObj kvs) ''removalDate'') \<longrightarrow>
      runner_static_record P market_id publish_time (JObj kvs)
        = runner_static_record P market_id publish_time
            (JObj (filter (\<lambda>kv. fst kv \<noteq> ''removalDate'') kvs))
      \<and> (\<exists>r. runner_static_record P market_id publish_time (JObj kvs) = Inr r
               \<and> col ''removal_date'' r = Val JNull))
   \<and> (\<not> py_truthy (get (JObj kvs) ''marketTime'') \<longrightarrow>
      market_metadata_record P market_id (JObj kvs)
        = market_metadata_record P market_id (JObj (filter (\<lambda>kv. fst kv \<noteq> ''marketTime'') kvs))
      \<and> (\<exists>r. market_metadata_record P market_id (JObj kvs) = Inr r
               \<and> col ''market_time'' r = Val JNull))"
  by (simp add: runner_static_record_def market_metadata_record_def get_filter_key
        del: get.simps)

text \<open>
  A removal date of 0 and an empty market time give the rows of the entries without
  the field; a removal date of 5 does not.
\<close>

theorem falsy_timestamps_are_null_witness:
  "\<not> py_truthy (get (JObj [(''id'', JNum 10), (''removalDate'', JNum 0)]) ''removalDate'')
   \<and> runner_static_record ms_pandas (JStr ''1.23'') (Time 7)
        (JObj [(''id'', JNum 10), (''removalDate'', JNum 0)])
      = runner_static_record ms_pandas (JStr ''1.23'') (Time 7) (JObj [(''id'', JNum 10)])
   \<and> \<not> py_truthy (get (JObj [(''marketTime'', JStr ''''), (''name'', JStr ''M'')]) ''marketTime'')
   \<and> market_metadata_record ms_pandas (JStr ''1.23'')
        (JObj [(''marketTime'', JStr ''''), (''name'', JStr ''M'')])
      = market_metadata_record ms_pandas (JStr ''1.23'') (JObj [(''name'', JStr ''M'')])
   \<and> runner_static_record ms_pandas (JStr ''1.23'') (Time 7)
        (JObj [(''id'', JNum 10), (''removalDate'', JNum 5)])
      \<noteq> runner_static_record ms_pandas (JStr ''1.23'') (Time 7) (JObj [(''id'', JNum 10)])"
proof -
  have a: "\<not> py_truthy (get (JObj [(''id'', JNum 10), (''removalDate'', JNum 0)]) ''removalDate'')"
    by simp
  have b: "\<not> py_truthy (get (JObj [(''marketTime'', JStr ''''), (''name'', JStr ''M'')]) ''marketTime'')"
    by simp
  have c: "runner_static_record ms_pandas (JStr ''1.23'') (Time 7)
        (JObj [(''id'', JNum 10), (''removalDate'', JNum 5)])
      \<noteq> runner_static_record ms_pandas (JStr ''1.23'') (Time 7) (JObj [(''id'', JNum 10)])"
    by (simp add: runner_static_record_def ms_pandas_def)
  from a falsy_timestamps_are_null
    [of "[(''id'', JNum 10), (''removalDate'', JNum 0)]" ms_pandas "JStr ''1.23''" "Time 7"]
  have d: "runner_static_record ms_pandas (JStr ''1.23'') (Time 7)
        (JObj [(''id'', JNum 10), (''removalDate'', JNum 0)])
      = runner_static_record ms_pandas (JStr ''1.23'') (Time 7) (JObj [(''id'', JNum 10)])"
    by simp
  from b falsy_timestamps_are_null
    [of "[(''marketTime'', JStr ''''), (''name'', JStr ''M'')]" ms_pandas "JStr ''1.23''"]
  have e: "market_metadata_record ms_pandas (JStr ''1.23'')
        (JObj [(''marketTime'', JStr ''''), (''name'', JStr ''M'')])
      = market_metadata_record ms_pandas (JStr ''1.23'') (JObj [(''name'', JStr ''M'')])"
    by simp
  from a b c d e show ?thesis by blast
qed

section \<open>A file whose parse raises stays in the raw-record set\<close>

text \<open>
  Claim C10 says that every file whose decode succeeds and whose parse raises still
  contributes rows to the two reference tables. Its frame is retained, but the
  reference builder reads the same records outside any \<^verbatim>\<open>try\<close>: where it raises too,
  the exception leaves \<^verbatim>\<open>process_month\<close> and no reference table exists. In the month
  below the file holds a definition of market 1.5, so it has rows to contribute, and
  none is produced.
\<close>

theorem failed_parse_can_end_the_month:
  "crash_read_json ''crash.bz2'' = Inr crash_file
   \<and> \<not> df_empty crash_file
   \<and> parse_betfair_stream ms_pandas crash_file = Inl AttributeError
   \<and> snd (process_days ms_pandas crash_read_json init_state (days crash_dir))
       = Inr (init_state\<lparr>all_raw_dfs := [crash_file]\<rparr>)
   \<and> create_reference_tables ms_pandas [crash_file] = Inl TypeError
   \<and> outcome (process_month ms_pandas crash_read_json crash_dir 2024 ''Dec'') = Inl TypeError"
proof -
  have b: "crash_read_json ''crash.bz2'' = Inr crash_file"
    by (simp add: crash_read_json_def)
  have n: "\<not> df_empty crash_file"
    by (simp add: df_empty_def crash_file_def)
  have p: "parse_betfair_stream ms_pandas crash_file = Inl AttributeError"
    by code_simp
  have s: "snd (process_days ms_pandas crash_read_json init_state (days crash_dir))
       = Inr (init_state\<lparr>all_raw_dfs := [crash_file]\<rparr>)"
    by code_simp
  have c: "create_reference_tables ms_pandas [crash_file] = Inl TypeError"
    by code_simp
  have o: "outcome (process_month ms_pandas crash_read_json crash_dir 2024 ''Dec'') = Inl TypeError"
    by code_simp
  from b n p s c o show ?thesis by blast
qed

text \<open>
  Claim C10, amended. A file that decodes to a non-empty frame and whose parse raises
  adds its frame to \<open>all_raw_dfs\<close> and nothing to the event accumulators. At the end of
  the day loop \<open>all_raw_dfs\<close> holds the frames of all files that decoded to a non-empty
  frame, in order, whether their parse raised or not, and the reference tables of the
  month are \<^verbatim>\<open>create_reference_tables\<close> of these frames; when that call raises, the
  exception leaves \<^verbatim>\<open>process_month\<close>.
\<close>

theorem failed_parse_keeps_raw_frame:
  "(\<forall>df e. read_json f = Inr df \<and> \<not> df_empty df \<and> parse_betfair_stream P df = Inl e \<longrightarrow>
        process_file P read_json acc f
          = ((fst acc)\<lparr>all_raw_dfs := all_raw_dfs (fst acc) @ [df]\<rparr>, snd acc)
        \<and> retained_frames read_json [f] = [df])
   \<and> (\<forall>st. snd (process_days P read_json init_state (days dir)) = Inr st \<longrightarrow>
        all_raw_dfs st = retained_frames read_json (concat (map snd (days dir)))
        \<and> (\<forall>e. month_exists dir
                \<and> create_reference_tables P (retained_frames read_json (concat (map snd (days dir))))
                    = Inl e \<longrightarrow>
              outcome (process_month P read_json dir year month) = Inl e))
   \<and> (\<forall>tables summary.
        outcome (process_month P read_json dir year month) = Inr (Some (tables, summary)) \<longrightarrow>
        create_reference_tables P (retained_frames read_json (concat (map snd (days dir))))
          = Inr (market_reference tables, runner_reference tables))"
proof (intro conjI allI impI)
  fix df e
  assume a: "read_json f = Inr df \<and> \<not> df_empty df \<and> parse_betfair_stream P df = Inl e"
  then show "process_file P read_json acc f
          = ((fst acc)\<lparr>all_raw_dfs := all_raw_dfs (fst acc) @ [df]\<rparr>, snd acc)"
    by (simp add: process_file_parse_error)
  from a show "retained_frames read_json [f] = [df]"
    by (simp add: retained_frames_def)
next
  fix st
  assume s: "snd (process_days P read_json init_state (days dir)) = Inr st"
  from process_days_raw [OF s]
  show "all_raw_dfs st = retained_frames read_json (concat (map snd (days dir)))"
    by (simp add: init_state_def)
  show "outcome (process_month P read_json dir year month) = Inl e"
    if "month_exists dir
        \<and> create_reference_tables P (retained_frames read_json (concat (map snd (days dir)))) = Inl e"
    for e
    using that s process_month_reference_error [of dir P read_json st e year month] by blast
next
  fix tables summary
  assume "outcome (process_month P read_json dir year month) = Inr (Some (tables, summary))"
  then show "create_reference_tables P (retained_frames read_json (concat (map snd (days dir))))
          = Inr (market_reference tables, runner_reference tables)"
    by (rule process_month_references)
qed

text \<open>
  The example month: the parse of \<open>broken.bz2\<close> raises, its frame is retained, and its
  market 1.99 is in the market reference table. The month of the file with the number
  block: the frame is retained, the reference build raises, and so does the month.
\<close>

theorem failed_parse_keeps_raw_frame_witness:
  "example_read_json ''broken.bz2'' = Inr broken_file
   \<and> \<not> df_empty broken_file
   \<and> parse_betfair_stream ms_pandas broken_file = Inl TypeError
   \<and> process_file ms_pandas example_read_json (init_state, []) ''broken.bz2''
       = (init_state\<lparr>all_raw_dfs := [broken_file]\<rparr>, [])
   \<and> outcome (process_month ms_pandas example_read_json example_dir 2024 ''Dec'')
       = Inr (Some (example_tables, example_summary))
   \<and> retained_frames example_read_json (concat (map snd (days example_dir)))
       = [first_file, changes_file, second_file, broken_file]
   \<and> create_reference_tables ms_pandas [first_file, changes_file, second_file, broken_file]
       = Inr (market_reference example_tables, runner_reference example_tables)
   \<and> map (col ''market_id'') (market_reference example_tables)
       = [Val (JStr ''1.23''), Val (JStr ''1.99'')]
   \<and> month_exists crash_dir
   \<and> snd (process_days ms_pandas crash_read_json init_state (days crash_dir))
       = Inr (init_state\<lparr>all_raw_dfs := [crash_file]\<rparr>)
   \<and> create_reference_tables ms_pandas
        (retained_frames crash_read_json (concat (map snd (days crash_dir)))) = Inl TypeError
   \<and> outcome (process_month ms_pandas crash_read_json crash_dir 2024 ''Dec'') = Inl TypeError"
proof -
  have b: "example_read_json ''broken.bz2'' = Inr broken_file"
    by (simp add: example_read_json_def)
  have n: "\<not> df_empty broken_file"
    by (simp add: df_empty_def broken_file_def)
  have p: "parse_betfair_stream ms_pandas broken_file = Inl TypeError"
    by code_simp
  have t: "outcome (process_month ms_pandas example_read_json example_dir 2024 ''Dec'')
       = Inr (Some (example_tables, example_summary))"
    by code_simp
  have r: "retained_frames example_read_json (concat (map snd (days example_dir)))
       = [first_file, changes_file, second_file, broken_file]"
    by code_simp
  have m: "map (col ''market_id'') (market_reference example_tables)
       = [Val (JStr ''1.23''), Val (JStr ''1.99'')]"
    by code_simp
  have ce: "month_exists crash_dir"
    by (simp add: crash_dir_def)
  have cs: "snd (process_days ms_pandas crash_read_json init_state (days crash_dir))
       = Inr (init_state\<lparr>all_raw_dfs := [crash_file]\<rparr>)"
    by code_simp
  have cr: "create_reference_tables ms_pandas
        (retained_frames crash_read_json (concat (map snd (days crash_dir)))) = Inl TypeError"
    by code_simp
  note w = failed_parse_keeps_raw_frame
    [of example_read_json "''broken.bz2''" ms_pandas "(init_state, [])" example_dir 2024 "''Dec''"]
  from w [THEN conjunct1, rule_format, of broken_file TypeError] b n p
  have 1: "process_file ms_pandas example_read_json (init_state, []) ''broken.bz2''
       = (init_state\<lparr>all_raw_dfs := [broken_file]\<rparr>, [])"
    by (simp add: init_state_def)
  from w t have "create_reference_tables ms_pandas
        (retained_frames example_read_json (concat (map snd (days example_dir))))
       = Inr (market_reference example_tables, runner_reference example_tables)"
    by blast
  with r have 2: "create_reference_tables ms_pandas [first_file, changes_file, second_file, broken_file]
       = Inr (market_reference example_tables, runner_reference example_tables)"
    by simp
  from failed_parse_keeps_raw_frame
    [of crash_read_json _ ms_pandas _ crash_dir 2024 "''Dec''"] ce cs cr
  have 3: "outcome (process_month ms_pandas crash_read_json crash_dir 2024 ''Dec'') = Inl TypeError"
    by blast
  from b n p t r m 1 2 ce cs cr 3 show ?thesis by blast
qed

end
